theory Spec2Isabelle
  imports Complex_Main "HOL-Library.Sublist" "HOL-Library.AList"
begin

section \<open>Python values\<close>

text \<open>
  The script \<^verbatim>\<open>report/analyze_path/analyze_path.py\<close> is dynamically typed: a field of a
  \<^verbatim>\<open>Stats\<close> object holds the string \<^verbatim>\<open>'---'\<close> or a float, and the duration of a message
  flow is a float, \<^verbatim>\<open>None\<close>, or the missing-value marker of pandas. The values that occur
  are collected in one datatype. A finite float is modelled by the real number it
  denotes (arithmetic is exact, rounding errors of the 64-bit format are not modelled);
  the float \<^verbatim>\<open>nan\<close> and the pandas marker \<^verbatim>\<open>pandas.NA\<close> are values of their own.
\<close>

datatype pyval =
    PyNone
  | PyStr string
  | PyInt int
  | PyFloat real
  | PyNaN
  | PyNA

datatype py_error = IndexError | KeyError | SystemExit int

text \<open>\<^verbatim>\<open>isinstance(v, (int, float))\<close>: \<^verbatim>\<open>nan\<close> is a float, \<^verbatim>\<open>pandas.NA\<close> and \<^verbatim>\<open>None\<close> are not.\<close>

fun isinstance_int_float :: "pyval \<Rightarrow> bool" where
  "isinstance_int_float (PyInt i) = True"
| "isinstance_int_float (PyFloat r) = True"
| "isinstance_int_float PyNaN = True"
| "isinstance_int_float v = False"

text \<open>
  \<^verbatim>\<open>round(x, ndigits)\<close> on a float rounds the exact value of \<open>x\<close> to the nearest multiple of
  \<open>10 ^ -ndigits\<close>, a tie going to the even neighbour; \<^verbatim>\<open>round(nan, 3)\<close> is \<^verbatim>\<open>nan\<close>.
\<close>

definition py_round :: "real \<Rightarrow> nat \<Rightarrow> real" where
  "py_round x ndigits =
     (let y = x * 10 ^ ndigits;
          f = \<lfloor>y\<rfloor>;
          d = y - of_int f
      in (if d < 1 / 2 then of_int f
          else if 1 / 2 < d then of_int (f + 1)
          else if even f then of_int f
          else of_int (f + 1)) / 10 ^ ndigits)"

fun round_float :: "pyval \<Rightarrow> nat \<Rightarrow> pyval" where
  "round_float (PyFloat x) ndigits = PyFloat (py_round x ndigits)"
| "round_float (PyInt i) ndigits = PyFloat (py_round (of_int i) ndigits)"
| "round_float v ndigits = v"

section \<open>The numpy reductions used by the script\<close>

text \<open>
  Modelled from the spec: numpy is not part of the repository. Section 4.3 of the
  specification names what \<^verbatim>\<open>calc_stats\<close> asks of it: average, standard deviation,
  minimum, maximum, and percentiles that "use linear interpolation between ranks".
  The sample sequences are sequences of finite floats, modelled as lists of reals.
  \<^verbatim>\<open>np.average\<close> of an empty sequence is \<^verbatim>\<open>nan\<close>. The other reductions are called by
  \<^verbatim>\<open>calc_stats\<close> only under the guard \<^verbatim>\<open>len(df) > 1\<close>.
\<close>

definition np_average :: "real list \<Rightarrow> pyval" where
  "np_average xs = (if xs = [] then PyNaN else PyFloat (sum_list xs / real (length xs)))"

definition np_min :: "real list \<Rightarrow> real" where
  "np_min xs = fold min (tl xs) (hd xs)"

definition np_max :: "real list \<Rightarrow> real" where
  "np_max xs = fold max (tl xs) (hd xs)"

text \<open>
  Modelled from the spec: \<^verbatim>\<open>np.std\<close> is the population standard deviation (no Bessel
  correction), the square root of the mean squared distance to the mean.
\<close>

definition np_std :: "real list \<Rightarrow> real" where
  "np_std xs =
     (let n = real (length xs);
          mean = sum_list xs / n
      in sqrt (sum_list (map (\<lambda>x. (x - mean)\<^sup>2) xs) / n))"

text \<open>
  Modelled from the spec: \<^verbatim>\<open>np.quantile(a, q)\<close> with the default method, linear
  interpolation between ranks. The samples are sorted; the virtual index of the quantile
  is \<open>q * (n - 1)\<close>; the result interpolates between the sample at the floor of the
  virtual index and its successor (clipped to the last sample) with the fractional part
  as weight.
\<close>

definition np_quantile :: "real list \<Rightarrow> real \<Rightarrow> real" where
  "np_quantile xs q =
     (let arr = sort xs;
          n = length xs;
          virtual_index = q * real (n - 1);
          previous_index = nat \<lfloor>virtual_index\<rfloor>;
          next_index = min (previous_index + 1) (n - 1);
          gamma = virtual_index - real previous_index
      in arr ! previous_index + (arr ! next_index - arr ! previous_index) * gamma)"

section \<open>The Stats class\<close>

record stats =
  target_path_name :: string
  node_names :: "string list"
  best_avg :: pyval
  best_std :: pyval
  best_min :: pyval
  best_max :: pyval
  best_p50 :: pyval
  best_p95 :: pyval
  best_p99 :: pyval
  worst_avg :: pyval
  worst_std :: pyval
  worst_min :: pyval
  worst_max :: pyval
  worst_p50 :: pyval
  worst_p95 :: pyval
  worst_p99 :: pyval
  filename_messageflow :: string
  filename_messageflow_short :: string
  filename_hist_total :: string
  filename_hist_best :: string
  filename_timeseries_best :: string
  filename_stacked_bar_best :: string
  filename_hist_worst :: string
  filename_timeseries_worst :: string
  filename_stacked_bar_worst :: string

text \<open>\<^verbatim>\<open>Stats.__init__\<close>: every statistics field starts as the placeholder \<^verbatim>\<open>'---'\<close>.\<close>

definition Stats :: "string \<Rightarrow> string list \<Rightarrow> stats" where
  "Stats name nodes =
     \<lparr> target_path_name = name,
       node_names = nodes,
       best_avg = PyStr ''---'',
       best_std = PyStr ''---'',
       best_min = PyStr ''---'',
       best_max = PyStr ''---'',
       best_p50 = PyStr ''---'',
       best_p95 = PyStr ''---'',
       best_p99 = PyStr ''---'',
       worst_avg = PyStr ''---'',
       worst_std = PyStr ''---'',
       worst_min = PyStr ''---'',
       worst_max = PyStr ''---'',
       worst_p50 = PyStr ''---'',
       worst_p95 = PyStr ''---'',
       worst_p99 = PyStr ''---'',
       filename_messageflow = '''',
       filename_messageflow_short = '''',
       filename_hist_total = '''',
       filename_hist_best = '''',
       filename_timeseries_best = '''',
       filename_stacked_bar_best = '''',
       filename_hist_worst = '''',
       filename_timeseries_worst = '''',
       filename_stacked_bar_worst = '''' \<rparr>"

text \<open>
  \<^verbatim>\<open>Stats.calc_stats\<close>, in two halves as in the source: the best-case fields, then the
  worst-case fields. Each half assigns the average, and the six other fields only when
  the sequence has more than one sample.
\<close>

definition calc_stats_best :: "stats \<Rightarrow> real list \<Rightarrow> stats" where
  "calc_stats_best self df_best =
     (let self = self\<lparr>best_avg := round_float (np_average df_best) 3\<rparr>
      in if length df_best > 1 then
           self\<lparr>best_min := PyFloat (py_round (np_min df_best) 3),
                best_max := PyFloat (py_round (np_max df_best) 3),
                best_std := PyFloat (py_round (np_std df_best) 3),
                best_p50 := PyFloat (py_round (np_quantile df_best (5 / 10)) 3),
                best_p95 := PyFloat (py_round (np_quantile df_best (95 / 100)) 3),
                best_p99 := PyFloat (py_round (np_quantile df_best (99 / 100)) 3)\<rparr>
         else self)"

definition calc_stats_worst :: "stats \<Rightarrow> real list \<Rightarrow> stats" where
  "calc_stats_worst self df_worst =
     (let self = self\<lparr>worst_avg := round_float (np_average df_worst) 3\<rparr>
      in if length df_worst > 1 then
           self\<lparr>worst_min := PyFloat (py_round (np_min df_worst) 3),
                worst_std := PyFloat (py_round (np_std df_worst) 3),
                worst_max := PyFloat (py_round (np_max df_worst) 3),
                worst_p50 := PyFloat (py_round (np_quantile df_worst (5 / 10)) 3),
                worst_p95 := PyFloat (py_round (np_quantile df_worst (95 / 100)) 3),
                worst_p99 := PyFloat (py_round (np_quantile df_worst (99 / 100)) 3)\<rparr>
         else self)"

definition calc_stats :: "stats \<Rightarrow> real list \<Rightarrow> real list \<Rightarrow> stats" where
  "calc_stats self df_best df_worst = calc_stats_worst (calc_stats_best self df_best) df_worst"

text \<open>\<^verbatim>\<open>Stats.store_filename\<close>; \<^verbatim>\<open>filename_hist_total\<close> is never assigned.\<close>

definition store_filename :: "stats \<Rightarrow> string \<Rightarrow> bool \<Rightarrow> stats" where
  "store_filename self name save_long_graph =
     (let self = (if save_long_graph
                  then self\<lparr>filename_messageflow := name @ ''_messageflow''\<rparr>
                  else self)
      in self\<lparr>filename_messageflow_short := name @ ''_messageflow_short'',
              filename_hist_best := name @ ''_hist_best'',
              filename_timeseries_best := name @ ''_timeseries_best'',
              filename_stacked_bar_best := name @ ''_stacked_bar_best'',
              filename_hist_worst := name @ ''_hist_worst'',
              filename_timeseries_worst := name @ ''_timeseries_worst'',
              filename_stacked_bar_worst := name @ ''_stacked_bar_worst''\<rparr>)"

section \<open>Records tables\<close>

text \<open>
  \<^verbatim>\<open>records.to_dataframe()\<close> is a pandas DataFrame of event timestamps in nanoseconds:
  an ordered list of column names and a list of rows, each row giving a timestamp or a
  missing value for every column. A DataFrame is rectangular: every column has one cell
  per row. pandas and the trace library are not part of the repository; what the script
  asks of them is modelled here. A column is either a nullable integer column
  (\<^verbatim>\<open>Int64\<close>, missing cells are \<^verbatim>\<open>pandas.NA\<close>) or a float/object column (missing cells
  are \<^verbatim>\<open>nan\<close>); the reductions \<^verbatim>\<open>min()\<close> and \<^verbatim>\<open>max()\<close> skip missing cells and
  return the missing-value marker of the column when no cell is left. The timestamps of
  a nullable integer column are 64-bit integers, between \<open>- 2 ^ 63\<close> and \<open>2 ^ 63 - 1\<close>.
\<close>

datatype dtype = Int64 | Float64

record series =
  dtype :: dtype
  cells :: "int option list"

record dataframe =
  columns :: "string list"
  dtypes :: "string \<Rightarrow> dtype"
  rows :: "(string \<Rightarrow> int option) list"

definition getitem :: "dataframe \<Rightarrow> string \<Rightarrow> series" where
  "getitem df c = \<lparr> dtype = dtypes df c, cells = map (\<lambda>row. row c) (rows df) \<rparr>"

fun na_value :: "dtype \<Rightarrow> pyval" where
  "na_value Int64 = PyNA"
| "na_value Float64 = PyNaN"

fun scalar :: "dtype \<Rightarrow> int \<Rightarrow> pyval" where
  "scalar Int64 t = PyInt t"
| "scalar Float64 t = PyFloat (of_int t)"

definition series_min :: "series \<Rightarrow> pyval" where
  "series_min s =
     (case List.map_filter id (cells s) of
        [] \<Rightarrow> na_value (dtype s)
      | t # ts \<Rightarrow> scalar (dtype s) (fold min ts t))"

definition series_max :: "series \<Rightarrow> pyval" where
  "series_max s =
     (case List.map_filter id (cells s) of
        [] \<Rightarrow> na_value (dtype s)
      | t # ts \<Rightarrow> scalar (dtype s) (fold max ts t))"

text \<open>
  The reductions of a nullable integer column return \<^verbatim>\<open>numpy.int64\<close> scalars: their
  difference wraps around at \<open>2 ^ 63\<close>.
\<close>

definition wrap_int64 :: "int \<Rightarrow> int" where
  "wrap_int64 i = (i + 2 ^ 63) mod 2 ^ 64 - 2 ^ 63"

text \<open>
  Subtraction and the scaling by \<^verbatim>\<open>1e-9\<close>, on the values the reductions return. Any
  operation with \<^verbatim>\<open>pandas.NA\<close> is \<^verbatim>\<open>pandas.NA\<close>; otherwise any operation with \<^verbatim>\<open>nan\<close> is
  \<^verbatim>\<open>nan\<close>; a number times the float \<^verbatim>\<open>1e-9\<close> is a float. The reductions return nothing
  else; for any other operand Python raises TypeError, which the estimator catches and
  turns into \<^verbatim>\<open>None\<close>, the value the last equations give.
\<close>

fun py_sub :: "pyval \<Rightarrow> pyval \<Rightarrow> pyval" where
  "py_sub PyNA b = PyNA"
| "py_sub a PyNA = PyNA"
| "py_sub PyNaN b = PyNaN"
| "py_sub a PyNaN = PyNaN"
| "py_sub (PyInt a) (PyInt b) = PyInt (wrap_int64 (a - b))"
| "py_sub (PyInt a) (PyFloat b) = PyFloat (of_int a - b)"
| "py_sub (PyFloat a) (PyInt b) = PyFloat (a - of_int b)"
| "py_sub (PyFloat a) (PyFloat b) = PyFloat (a - b)"
| "py_sub a b = PyNone"

fun py_mul_float :: "pyval \<Rightarrow> real \<Rightarrow> pyval" where
  "py_mul_float PyNA c = PyNA"
| "py_mul_float PyNaN c = PyNaN"
| "py_mul_float (PyInt a) c = PyFloat (of_int a * c)"
| "py_mul_float (PyFloat a) c = PyFloat (a * c)"
| "py_mul_float a c = PyNone"

section \<open>The duration estimator\<close>

text \<open>
  The body of the \<^verbatim>\<open>try\<close> block of \<^verbatim>\<open>get_messageflow_durationtime\<close>:
  \<^verbatim>\<open>df_records.columns[0]\<close> raises IndexError on a table without columns.
\<close>

definition messageflow_duration_try :: "dataframe \<Rightarrow> bool \<Rightarrow> py_error + pyval" where
  "messageflow_duration_try df_records check_by_input =
     (case columns df_records of
        [] \<Rightarrow> Inl IndexError
      | input_column # others \<Rightarrow>
          (let input_time_min = series_min (getitem df_records input_column)
           in if check_by_input then
                (let input_time_max = series_max (getitem df_records input_column)
                 in Inr (py_mul_float (py_sub input_time_max input_time_min) (1 / 10 ^ 9)))
              else
                (let output_column = last (columns df_records);
                     output_time_max = series_max (getitem df_records output_column)
                 in Inr (py_mul_float (py_sub output_time_max input_time_min) (1 / 10 ^ 9)))))"

text \<open>
  \<^verbatim>\<open>get_messageflow_durationtime\<close>: the bare \<^verbatim>\<open>except\<close> turns every exception into
  \<^verbatim>\<open>None\<close>, and the final guard replaces every value that is not an instance of
  \<^verbatim>\<open>int\<close> or \<^verbatim>\<open>float\<close> by \<^verbatim>\<open>None\<close>.
\<close>

definition get_messageflow_durationtime :: "dataframe \<Rightarrow> bool \<Rightarrow> pyval" where
  "get_messageflow_durationtime df_records check_by_input =
     (let duration = (case messageflow_duration_try df_records check_by_input of
                        Inl e \<Rightarrow> PyNone
                      | Inr d \<Rightarrow> d)
      in if \<not> isinstance_int_float duration then PyNone else duration)"

section \<open>Effects\<close>

text \<open>
  The script acts on the world through its logger, the record extraction of the trace
  library and the files it writes. A run is modelled by the list of these events in the
  order they happen, next to the value returned or the exception raised.
\<close>

datatype level = DEBUG | INFO | WARNING

datatype event =
    Log level string
  | LogVars stats
  | ToRecords string bool bool
  | ExportGraph string string
  | ToCsv string
  | SaveStackedBar string
  | MakeDestinationDir string bool
  | CopyFile string string
  | YamlDump string "stats list"
  | RoundYaml string

section \<open>The boundary-callback validator\<close>

text \<open>
  \<^verbatim>\<open>check_the_first_last_callback_is_valid\<close>: the length of the first and of the last
  column. \<^verbatim>\<open>df_records.columns[0]\<close> is not guarded here: a table without columns raises
  IndexError.
\<close>

definition check_the_first_last_callback_is_valid ::
    "dataframe \<Rightarrow> event list \<times> (py_error + bool \<times> bool)" where
  "check_the_first_last_callback_is_valid df_records =
     (case columns df_records of
        [] \<Rightarrow> ([], Inl IndexError)
      | first_column # others \<Rightarrow>
          (let is_first_valid = (length (cells (getitem df_records first_column)) \<noteq> 0);
               is_last_valid = (length (cells (getitem df_records (last (columns df_records)))) \<noteq> 0)
           in ((if is_first_valid then [] else [Log WARNING ''  The first callback is invalid'']) @
               (if is_last_valid then [] else [Log WARNING ''  The last callback is invalid'']),
               Inr (is_first_valid, is_last_valid))))"

section \<open>The architecture, the application and the arguments\<close>

text \<open>
  What the trace library answers about a path. \<^verbatim>\<open>arch.get_path(name)\<close> gives the node
  names and the result of \<^verbatim>\<open>verify()\<close>. \<^verbatim>\<open>app.get_path(name)\<close> gives the path object:
  \<^verbatim>\<open>to_records()\<close> depends on the two inclusion flags the script has set on the object;
  \<^verbatim>\<open>response_time case xaxis_type\<close> is the second data column of the time-series frame
  of a latency case; \<^verbatim>\<open>stacked_bar_error case\<close> is the message of the exception that
  rendering the stacked-bar plot of the case raises, if it raises one (an instance of
  \<^verbatim>\<open>Exception\<close>, which the \<^verbatim>\<open>except\<close> clause of the script catches). Every other call
  into the plotting library is taken to return.
\<close>

record path_definition =
  path_node_names :: "string list"
  path_verify :: bool

record path =
  to_records :: "bool \<Rightarrow> bool \<Rightarrow> dataframe"
  child_names :: "string list"
  response_time :: "string \<Rightarrow> string \<Rightarrow> real list"
  stacked_bar_error :: "string \<Rightarrow> string option"

record architecture =
  paths :: "string list"
  arch_get_path :: "string \<Rightarrow> path_definition"

record application =
  app_get_path :: "string \<Rightarrow> path"

text \<open>
  An entry of \<^verbatim>\<open>target_path_list\<close> in the JSON configuration file: the key string and
  the two optional flags. The field \<^verbatim>\<open>target_path_json\<close> of the arguments stands for the
  parsed content of the file it names.
\<close>

record target_path_entry =
  entry_name :: string
  include_first_callback :: "bool option"
  include_last_callback :: "bool option"

record args =
  target_path_json :: "target_path_entry list"
  architecture_file_path :: string
  message_flow :: bool
  sim_time :: bool
  force :: bool

section \<open>Path configuration resolution\<close>

text \<open>
  The dictionary is an association list with distinct keys in insertion order.
  \<^verbatim>\<open>target_string in key\<close> is the substring test on strings.
\<close>

definition modify_dictionary ::
    "(string \<times> 'v) list \<Rightarrow> string \<Rightarrow> 'v \<Rightarrow> (string \<times> 'v) list" where
  "modify_dictionary dictionary target_string new_value =
     map (\<lambda>(key, old_value).
            if sublist target_string key then (key, new_value) else (key, old_value))
         dictionary"

definition entry_flags :: "target_path_entry \<Rightarrow> bool \<times> bool" where
  "entry_flags target_path =
     ((case include_first_callback target_path of Some b \<Rightarrow> b | None \<Rightarrow> True),
      (case include_last_callback target_path of Some b \<Rightarrow> b | None \<Rightarrow> True))"

definition get_include_first_last_callback ::
    "args \<Rightarrow> architecture \<Rightarrow> (string \<times> bool \<times> bool) list" where
  "get_include_first_last_callback a arch =
     (let include_first_last_callback =
            fold (\<lambda>path_name d. AList.update path_name (True, True) d)
                 (paths arch) []
      in fold (\<lambda>target_path d. modify_dictionary d (entry_name target_path) (entry_flags target_path))
              (target_path_json a) include_first_last_callback)"

section \<open>Per-path orchestration\<close>

text \<open>
  The loop of \<^verbatim>\<open>analyze_path\<close> over the latency cases: the CSV export, the time-series
  and histogram graphs, and the stacked-bar plot under its \<^verbatim>\<open>try\<close>. The dictionary
  \<^verbatim>\<open>df_response_time\<close> collects the time-series frame of each case.
\<close>

fun response_time_loop ::
    "string \<Rightarrow> path \<Rightarrow> string \<Rightarrow> string \<Rightarrow> string list \<Rightarrow> (string \<times> real list) list
     \<Rightarrow> event list \<times> (string \<times> real list) list" where
  "response_time_loop dest_dir target_path name xaxis_type [] df_response_time =
     ([], df_response_time)"
| "response_time_loop dest_dir target_path name xaxis_type (case_str # cases) df_response_time =
     (let exports =
            [ToCsv (dest_dir @ ''/'' @ name @ ''_response_time_'' @ case_str @ ''.csv''),
             ExportGraph dest_dir (name @ ''_timeseries_'' @ case_str),
             ExportGraph dest_dir (name @ ''_hist_'' @ case_str)];
          stacked_bar =
            (case stacked_bar_error target_path case_str of
               None \<Rightarrow>
                 [SaveStackedBar (dest_dir @ ''/'' @ name @ ''_stacked_bar_'' @ case_str @ ''.html'')]
             | Some e \<Rightarrow>
                 [Log WARNING (''    Failed to create stacked bar graph: '' @ name @ '', '' @ case_str),
                  Log WARNING e]);
          df_response_time =
            AList.update case_str (response_time target_path case_str xaxis_type) df_response_time;
          (later, df_response_time) =
            response_time_loop dest_dir target_path name xaxis_type cases df_response_time
      in (exports @ stacked_bar @ later, df_response_time))"

text \<open>
  Lines 157 to 210 of \<^verbatim>\<open>analyze_path\<close>: what happens once the records of the path are
  settled. \<^verbatim>\<open>df_response_time['best']\<close> raises KeyError on a missing key.
\<close>

definition analyze_records ::
    "args \<Rightarrow> string \<Rightarrow> architecture \<Rightarrow> path \<Rightarrow> string \<Rightarrow> string \<Rightarrow> dataframe
     \<Rightarrow> event list \<times> (py_error + stats)" where
  "analyze_records a dest_dir arch target_path name xaxis_type records =
     (let stats = Stats name (path_node_names (arch_get_path arch name));
          duration = get_messageflow_durationtime records True
      in if duration = PyNone then
           ([Log INFO ''  message flow'',
             Log WARNING (''    No-traffic and No-input in the path: '' @ name)],
            Inr stats)
         else
           (let flow =
                  [Log INFO ''  message flow'',
                   ExportGraph dest_dir (name @ ''_messageflow_short'')] @
                  (if message_flow a then [ExportGraph dest_dir (name @ ''_messageflow'')] else []) @
                  [Log INFO ''  response time''];
                finish = (\<lambda>stats.
                  (let stats = store_filename stats name (message_flow a)
                   in ([Log INFO (''---'' @ name @ ''---''), LogVars stats], stats)))
            in if get_messageflow_durationtime records False = PyNone then
                 (let (done, stats) = finish stats
                  in (flow @ [Log WARNING (''    No-traffic in the path: '' @ name)] @ done,
                      Inr stats))
               else
                 (let (rendered, df_response_time) =
                        response_time_loop dest_dir target_path name xaxis_type
                          [''best'', ''worst'', ''all''] []
                  in case (map_of df_response_time ''best'', map_of df_response_time ''worst'') of
                       (Some df_best, Some df_worst) \<Rightarrow>
                         (let (done, stats) = finish (calc_stats stats df_best df_worst)
                          in (flow @ rendered @ done, Inr stats))
                     | other \<Rightarrow> (flow @ rendered, Inl KeyError))))"

text \<open>
  \<^verbatim>\<open>analyze_path\<close>: the configured inclusion flags are set on the path object and the
  records are extracted; when the validator reports a boundary callback invalid, the two
  flags are overwritten with the validator's verdicts and the records are extracted once
  more. There is no loop around the retry.
\<close>

definition analyze_path ::
    "args \<Rightarrow> string \<Rightarrow> architecture \<Rightarrow> application \<Rightarrow> string \<Rightarrow> (string \<times> bool \<times> bool) list
     \<Rightarrow> string \<Rightarrow> event list \<times> (py_error + stats)" where
  "analyze_path a dest_dir arch app name include_first_last_callback xaxis_type =
     (let target_path = app_get_path app name;
          processing = [Log INFO (''Processing: '' @ name)]
      in case map_of include_first_last_callback name of
           None \<Rightarrow> (processing, Inl KeyError)
         | Some (include_first, include_last) \<Rightarrow>
             (let records = to_records target_path include_first include_last;
                  extracted = [ToRecords name include_first include_last];
                  (warnings, verdict) = check_the_first_last_callback_is_valid records
              in case verdict of
                   Inl e \<Rightarrow> (processing @ extracted @ warnings, Inl e)
                 | Inr (is_first_valid, is_last_valid) \<Rightarrow>
                     (if \<not> is_first_valid \<or> \<not> is_last_valid then
                        (let records = to_records target_path is_first_valid is_last_valid;
                             (analysis, result) =
                               analyze_records a dest_dir arch target_path name xaxis_type records
                         in (processing @ extracted @ warnings @
                             [ToRecords name is_first_valid is_last_valid] @ analysis, result))
                      else
                        (let (analysis, result) =
                               analyze_records a dest_dir arch target_path name xaxis_type records
                         in (processing @ extracted @ warnings @ analysis, result)))))"

section \<open>The top-level orchestrator\<close>

text \<open>The first loop of \<^verbatim>\<open>analyze\<close>: \<^verbatim>\<open>sys.exit(-1)\<close> at the first path that fails to verify.\<close>

fun verify_paths :: "architecture \<Rightarrow> string list \<Rightarrow> event list \<times> (py_error + unit)" where
  "verify_paths arch [] = ([], Inr ())"
| "verify_paths arch (path_name # others) =
     (let ret_verify = path_verify (arch_get_path arch path_name);
          logged = [Log INFO (''path.verify '' @ path_name @ '': '' @
                              (if ret_verify then ''True'' else ''False''))]
      in if \<not> ret_verify then (logged, Inl (SystemExit (- 1)))
         else (let (later, result) = verify_paths arch others in (logged @ later, result)))"

text \<open>
  The second loop of \<^verbatim>\<open>analyze\<close>: every path is analysed in the order of declaration and
  its Stats object is appended to \<^verbatim>\<open>stats_list\<close>; an exception of \<^verbatim>\<open>analyze_path\<close> ends
  the run.
\<close>

fun analyze_paths ::
    "args \<Rightarrow> string \<Rightarrow> architecture \<Rightarrow> application \<Rightarrow> (string \<times> bool \<times> bool) list \<Rightarrow> string
     \<Rightarrow> string list \<Rightarrow> stats list \<Rightarrow> event list \<times> (py_error + stats list)" where
  "analyze_paths a dest_dir arch app include_first_last_callback xaxis_type [] stats_list =
     ([], Inr stats_list)"
| "analyze_paths a dest_dir arch app include_first_last_callback xaxis_type
       (path_name # others) stats_list =
     (case analyze_path a dest_dir arch app path_name include_first_last_callback xaxis_type of
        (analysis, Inl e) \<Rightarrow> (analysis, Inl e)
      | (analysis, Inr stats) \<Rightarrow>
          (let (later, result) =
                 analyze_paths a dest_dir arch app include_first_last_callback xaxis_type
                   others (stats_list @ [stats])
           in (analysis @ later, result)))"

text \<open>
  \<^verbatim>\<open>analyze\<close>. The destination directory is prepared and the architecture file copied
  before the paths are verified; both helpers are taken to return.
\<close>

definition analyze :: "args \<Rightarrow> architecture \<Rightarrow> application \<Rightarrow> string
    \<Rightarrow> event list \<times> (py_error + unit)" where
  "analyze a arch app dest_dir =
     (let xaxis_type = (if sim_time a then ''sim_time'' else ''system_time'');
          prepared =
            [Log INFO ''<<< Analyze Paths: Start >>>'',
             MakeDestinationDir dest_dir (force a),
             CopyFile (architecture_file_path a) dest_dir];
          include_first_last_callback = get_include_first_last_callback a arch;
          (verified, verdict) = verify_paths arch (paths arch)
      in case verdict of
           Inl e \<Rightarrow> (prepared @ verified, Inl e)
         | Inr u \<Rightarrow>
             (case analyze_paths a dest_dir arch app include_first_last_callback xaxis_type
                     (paths arch) [] of
                (analysed, Inl e) \<Rightarrow> (prepared @ verified @ analysed, Inl e)
              | (analysed, Inr stats_list) \<Rightarrow>
                  (let stat_file_path = dest_dir @ ''/stats_path.yaml''
                   in (prepared @ verified @ analysed @
                       [YamlDump stat_file_path stats_list,
                        RoundYaml stat_file_path,
                        Log INFO ''<<< Analyze Paths: Finish >>>''],
                       Inr ()))))"

section \<open>Auxiliary definitions for the proofs\<close>

text \<open>The interpolation of \<^verbatim>\<open>np_quantile\<close> as a function of the virtual index.\<close>

definition rank_interp :: "real list \<Rightarrow> real \<Rightarrow> real" where
  "rank_interp arr h =
     arr ! nat \<lfloor>h\<rfloor> + (arr ! min (nat \<lfloor>h\<rfloor> + 1) (length arr - 1) - arr ! nat \<lfloor>h\<rfloor>) * (h - real (nat \<lfloor>h\<rfloor>))"

text \<open>Kinds of events, to state what a run does and does not do.\<close>

fun is_extraction :: "event \<Rightarrow> bool" where
  "is_extraction (ToRecords name include_first include_last) = True"
| "is_extraction e = False"

fun is_artifact :: "event \<Rightarrow> bool" where
  "is_artifact (ExportGraph dest_dir filename) = True"
| "is_artifact (ToCsv file) = True"
| "is_artifact (SaveStackedBar file) = True"
| "is_artifact e = False"

text \<open>
  Everything but the two outcomes of a stacked-bar rendering: the saved plot, or the
  warnings logged when it fails.
\<close>

fun outside_stacked_bar :: "event \<Rightarrow> bool" where
  "outside_stacked_bar (SaveStackedBar file) = False"
| "outside_stacked_bar (Log WARNING message) = False"
| "outside_stacked_bar e = True"

text \<open>
  The events of \<^verbatim>\<open>analyze\<close> before its second loop: the start message, the preparation of
  the destination directory, and the log lines of the verification loop.
\<close>

fun is_preparation_or_verification :: "event \<Rightarrow> bool" where
  "is_preparation_or_verification (Log INFO message) =
     (message = ''<<< Analyze Paths: Start >>>'' \<or> prefix ''path.verify '' message)"
| "is_preparation_or_verification (MakeDestinationDir dest_dir overwrite) = True"
| "is_preparation_or_verification (CopyFile source dest_dir) = True"
| "is_preparation_or_verification e = False"

fun is_report :: "event \<Rightarrow> bool" where
  "is_report (YamlDump file stats_list) = True"
| "is_report e = False"

section \<open>Sample inputs\<close>

text \<open>
  A records table with traffic: two messages enter the path at 1 s and 3 s, the first
  leaves it at 1.5 s, the second never leaves it. A table without rows, with nullable
  integer or with float columns. An application with four kinds of paths: \<^verbatim>\<open>sensing\<close>,
  whose first callback is not instrumented (its records are empty while the first
  callback is included); \<^verbatim>\<open>planning\<close>, with traffic, whose stacked-bar plot of the case
  \<^verbatim>\<open>all\<close> fails to render; \<^verbatim>\<open>float_idle\<close>, without traffic, in float columns; and every
  other path, without traffic, in nullable integer columns. An architecture in which
  every path but \<^verbatim>\<open>broken\<close> verifies.
\<close>

definition traced_records :: dataframe where
  "traced_records =
     \<lparr> columns = [''callback_start'', ''publish''],
       dtypes = (\<lambda>c. Int64),
       rows = [(\<lambda>c. if c = ''callback_start'' then Some 1000000000 else Some 1500000000),
               (\<lambda>c. if c = ''callback_start'' then Some 3000000000 else None)] \<rparr>"

definition empty_records :: "dtype \<Rightarrow> dataframe" where
  "empty_records t =
     \<lparr> columns = [''callback_start'', ''publish''], dtypes = (\<lambda>c. t), rows = [] \<rparr>"

definition sample_app :: application where
  "sample_app =
     \<lparr> app_get_path = (\<lambda>name.
         if name = ''sensing'' then
           \<lparr> to_records = (\<lambda>include_first include_last.
                 if include_first then empty_records Int64 else traced_records),
             child_names = [''lidar'', ''filter''],
             response_time = (\<lambda>case_str xaxis_type.
                 if case_str = ''best'' then [15 / 10, 25 / 10]
                 else if case_str = ''worst'' then [4]
                 else [15 / 10, 25 / 10, 4]),
             stacked_bar_error = (\<lambda>case_str.
                 if case_str = ''worst'' then Some ''no records'' else None) \<rparr>
         else if name = ''planning'' then
           \<lparr> to_records = (\<lambda>include_first include_last. traced_records),
             child_names = [''planner''],
             response_time = (\<lambda>case_str xaxis_type.
                 if case_str = ''best'' then [3, 1, 2, 5] else [4, 2]),
             stacked_bar_error = (\<lambda>case_str.
                 if case_str = ''all'' then Some ''empty frame'' else None) \<rparr>
         else if name = ''float_idle'' then
           \<lparr> to_records = (\<lambda>include_first include_last. empty_records Float64),
             child_names = [],
             response_time = (\<lambda>case_str xaxis_type. []),
             stacked_bar_error = (\<lambda>case_str. None) \<rparr>
         else
           \<lparr> to_records = (\<lambda>include_first include_last. empty_records Int64),
             child_names = [],
             response_time = (\<lambda>case_str xaxis_type. []),
             stacked_bar_error = (\<lambda>case_str. None) \<rparr>) \<rparr>"

definition sample_arch :: "string list \<Rightarrow> architecture" where
  "sample_arch declared =
     \<lparr> paths = declared,
       arch_get_path = (\<lambda>name. \<lparr> path_node_names = [name @ ''_node''],
                                  path_verify = (name \<noteq> ''broken'') \<rparr>) \<rparr>"

definition sample_args :: args where
  "sample_args =
     \<lparr> target_path_json = [],
       architecture_file_path = ''architecture_path.yaml'',
       message_flow = False,
       sim_time = False,
       force = False \<rparr>"

section \<open>Statistics: properties of the numpy reductions and of rounding\<close>

lemma np_min_eq_Min: "xs \<noteq> [] \<Longrightarrow> np_min xs = Min (set xs)"
  using Min.set_eq_fold[of "hd xs" "tl xs"] by (simp add: np_min_def)

lemma np_max_eq_Max: "xs \<noteq> [] \<Longrightarrow> np_max xs = Max (set xs)"
  using Max.set_eq_fold[of "hd xs" "tl xs"] by (simp add: np_max_def)

lemma clip_next_less: "arr \<noteq> [] \<Longrightarrow> min (i + 1) (length arr - 1) < length arr"
  by (cases arr) simp_all

lemma le_pred_less: "arr \<noteq> [] \<Longrightarrow> i \<le> length arr - 1 \<Longrightarrow> i < length arr"
  by (cases arr) simp_all

lemma sort_not_Nil: "xs \<noteq> [] \<Longrightarrow> sort xs \<noteq> []"
  using length_sort[of "\<lambda>x. x" xs] by (metis length_0_conv)

lemma np_quantile_rank_interp: "np_quantile xs q = rank_interp (sort xs) (q * real (length xs - 1))"
  by (simp add: np_quantile_def rank_interp_def Let_def)

lemma rank_interp_between:
  assumes srt: "sorted arr" and ne: "arr \<noteq> []" and h0: "0 \<le> h" and h1: "h \<le> real (length arr - 1)"
  shows "arr ! nat \<lfloor>h\<rfloor> \<le> rank_interp arr h"
    and "rank_interp arr h \<le> arr ! min (nat \<lfloor>h\<rfloor> + 1) (length arr - 1)"
proof -
  define i where "i = nat \<lfloor>h\<rfloor>"
  define j where "j = min (i + 1) (length arr - 1)"
  define g where "g = h - real i"
  have fl: "0 \<le> \<lfloor>h\<rfloor>" using h0 by simp
  have ri: "real i = of_int \<lfloor>h\<rfloor>" using fl by (simp add: i_def)
  have g0: "0 \<le> g" and g1: "g \<le> 1" unfolding g_def ri by linarith+
  have "real i \<le> real (length arr - 1)" using h1 ri by linarith
  then have i_le: "i \<le> length arr - 1" by simp
  have ij: "i \<le> j" using i_le by (simp add: j_def)
  have jn: "j < length arr" unfolding j_def by (rule clip_next_less[OF ne])
  have le: "arr ! i \<le> arr ! j" using sorted_nth_mono[OF srt ij jn] .
  have eq: "rank_interp arr h = arr ! i + (arr ! j - arr ! i) * g"
    by (simp add: rank_interp_def i_def j_def g_def)
  have "0 \<le> (arr ! j - arr ! i) * g" using le g0 by simp
  then show "arr ! nat \<lfloor>h\<rfloor> \<le> rank_interp arr h" unfolding eq i_def[symmetric] by linarith
  have "(arr ! j - arr ! i) * g \<le> (arr ! j - arr ! i) * 1"
    using le g1 by (intro mult_left_mono) simp_all
  then have "(arr ! j - arr ! i) * g \<le> arr ! j - arr ! i" by simp
  then show "rank_interp arr h \<le> arr ! min (nat \<lfloor>h\<rfloor> + 1) (length arr - 1)"
    unfolding eq i_def[symmetric] j_def[symmetric] by linarith
qed

lemma rank_interp_mono:
  assumes srt: "sorted arr" and ne: "arr \<noteq> []" and h0: "0 \<le> h" and hk: "h \<le> k"
    and k1: "k \<le> real (length arr - 1)"
  shows "rank_interp arr h \<le> rank_interp arr k"
proof (cases "\<lfloor>h\<rfloor> = \<lfloor>k\<rfloor>")
  case True
  define i where "i = nat \<lfloor>k\<rfloor>"
  define j where "j = min (i + 1) (length arr - 1)"
  have k0: "0 \<le> k" using h0 hk by linarith
  have "real i = of_int \<lfloor>k\<rfloor>" using k0 by (simp add: i_def)
  then have "real i \<le> real (length arr - 1)" using k1 by linarith
  then have i_le: "i \<le> length arr - 1" by simp
  have ij: "i \<le> j" using i_le by (simp add: j_def)
  have jn: "j < length arr" unfolding j_def by (rule clip_next_less[OF ne])
  have le: "arr ! i \<le> arr ! j" using sorted_nth_mono[OF srt ij jn] .
  have "(arr ! j - arr ! i) * (h - real i) \<le> (arr ! j - arr ! i) * (k - real i)"
    using le hk by (intro mult_left_mono) simp_all
  then show ?thesis
    using True by (simp add: rank_interp_def i_def j_def)
next
  case False
  have k0: "0 \<le> k" using h0 hk by linarith
  have lt: "\<lfloor>h\<rfloor> < \<lfloor>k\<rfloor>" using False floor_mono[OF hk] by linarith
  have fh: "0 \<le> \<lfloor>h\<rfloor>" using h0 by simp
  have step: "nat \<lfloor>h\<rfloor> + 1 \<le> nat \<lfloor>k\<rfloor>" using lt fh by linarith
  have "real (nat \<lfloor>k\<rfloor>) = of_int \<lfloor>k\<rfloor>" using k0 by simp
  then have "real (nat \<lfloor>k\<rfloor>) \<le> real (length arr - 1)" using k1 by linarith
  then have k_le: "nat \<lfloor>k\<rfloor> \<le> length arr - 1" by simp
  have kn: "nat \<lfloor>k\<rfloor> < length arr" using le_pred_less[OF ne k_le] .
  have h1: "h \<le> real (length arr - 1)" using hk k1 by linarith
  have "min (nat \<lfloor>h\<rfloor> + 1) (length arr - 1) \<le> nat \<lfloor>k\<rfloor>" using step by simp
  then have mid: "arr ! min (nat \<lfloor>h\<rfloor> + 1) (length arr - 1) \<le> arr ! nat \<lfloor>k\<rfloor>"
    using sorted_nth_mono[OF srt _ kn] by blast
  show ?thesis
    using rank_interp_between(2)[OF srt ne h0 h1] mid rank_interp_between(1)[OF srt ne k0 k1]
    by linarith
qed

lemma np_quantile_mono:
  assumes "xs \<noteq> []" "0 \<le> q" "q \<le> q'" "q' \<le> 1"
  shows "np_quantile xs q \<le> np_quantile xs q'"
proof -
  have "q' * real (length xs - 1) \<le> 1 * real (length xs - 1)"
    using assms(4) by (intro mult_right_mono) simp_all
  moreover have "q * real (length xs - 1) \<le> q' * real (length xs - 1)"
    using assms(3) by (intro mult_right_mono) simp_all
  moreover have "0 \<le> q * real (length xs - 1)" using assms(2) by simp
  ultimately show ?thesis
    unfolding np_quantile_rank_interp
    using assms(1) by (intro rank_interp_mono) (simp_all add: sort_not_Nil)
qed

lemma np_quantile_bounds:
  assumes "xs \<noteq> []" "0 \<le> q" "q \<le> 1"
  shows "np_min xs \<le> np_quantile xs q" and "np_quantile xs q \<le> np_max xs"
proof -
  define arr where "arr = sort xs"
  define h where "h = q * real (length xs - 1)"
  have srt: "sorted arr" and ne: "arr \<noteq> []" and len: "length arr = length xs"
    and st: "set arr = set xs"
    using assms(1) by (simp_all add: arr_def sort_not_Nil)
  have h0: "0 \<le> h" using assms(2) by (simp add: h_def)
  have "q * real (length xs - 1) \<le> 1 * real (length xs - 1)"
    using assms(3) by (intro mult_right_mono) simp_all
  then have h1: "h \<le> real (length arr - 1)" by (simp add: h_def len)
  have "real (nat \<lfloor>h\<rfloor>) = of_int \<lfloor>h\<rfloor>" using h0 by simp
  then have "real (nat \<lfloor>h\<rfloor>) \<le> real (length arr - 1)" using h1 by linarith
  then have "nat \<lfloor>h\<rfloor> \<le> length arr - 1" by simp
  then have i_lt: "nat \<lfloor>h\<rfloor> < length arr" using le_pred_less[OF ne] by blast
  have j_lt: "min (nat \<lfloor>h\<rfloor> + 1) (length arr - 1) < length arr" by (rule clip_next_less[OF ne])
  have "arr ! nat \<lfloor>h\<rfloor> \<in> set xs" using i_lt st nth_mem by blast
  then have lo: "np_min xs \<le> arr ! nat \<lfloor>h\<rfloor>"
    by (simp add: np_min_eq_Min[OF assms(1)])
  have "arr ! min (nat \<lfloor>h\<rfloor> + 1) (length arr - 1) \<in> set xs" using j_lt st nth_mem by blast
  then have hi: "arr ! min (nat \<lfloor>h\<rfloor> + 1) (length arr - 1) \<le> np_max xs"
    by (simp add: np_max_eq_Max[OF assms(1)])
  show "np_min xs \<le> np_quantile xs q"
    using lo rank_interp_between(1)[OF srt ne h0 h1]
    by (simp add: np_quantile_rank_interp arr_def h_def)
  show "np_quantile xs q \<le> np_max xs"
    using hi rank_interp_between(2)[OF srt ne h0 h1]
    by (simp add: np_quantile_rank_interp arr_def h_def)
qed


lemma py_round_mono: "x \<le> y \<Longrightarrow> py_round x n \<le> py_round y n"
proof -
  assume xy: "x \<le> y"
  define a where "a = x * 10 ^ n"
  define b where "b = y * 10 ^ n"
  have ab: "a \<le> b" using xy by (simp add: a_def b_def)
  define r where "r = (\<lambda>y::real. (if y - of_int \<lfloor>y\<rfloor> < 1 / 2 then of_int \<lfloor>y\<rfloor>
          else if 1 / 2 < y - of_int \<lfloor>y\<rfloor> then of_int (\<lfloor>y\<rfloor> + 1)
          else if even \<lfloor>y\<rfloor> then of_int \<lfloor>y\<rfloor>
          else of_int (\<lfloor>y\<rfloor> + 1) :: real))"
  have lo: "of_int \<lfloor>t\<rfloor> \<le> r t" for t by (simp add: r_def)
  have hi: "r t \<le> of_int \<lfloor>t\<rfloor> + 1" for t by (simp add: r_def)
  have "r a \<le> r b"
  proof (cases "\<lfloor>a\<rfloor> = \<lfloor>b\<rfloor>")
    case True
    then show ?thesis using ab by (auto simp: r_def)
  next
    case False
    then have "\<lfloor>a\<rfloor> < \<lfloor>b\<rfloor>" using ab floor_mono[OF ab] by linarith
    then have "\<lfloor>a\<rfloor> + 1 \<le> \<lfloor>b\<rfloor>" by simp
    then have "(of_int \<lfloor>a\<rfloor> :: real) + 1 \<le> of_int \<lfloor>b\<rfloor>"
      by (metis of_int_1 of_int_add of_int_le_iff)
    then show ?thesis using hi[of a] lo[of b] by linarith
  qed
  then have "r a / 10 ^ n \<le> r b / 10 ^ n" by (simp add: divide_right_mono)
  then show ?thesis
    unfolding py_round_def Let_def r_def a_def b_def .
qed

lemma rounded_chain:
  assumes "2 \<le> length xs"
  shows "py_round (np_min xs) 3 \<le> py_round (np_quantile xs (5 / 10)) 3
       \<and> py_round (np_quantile xs (5 / 10)) 3 \<le> py_round (np_quantile xs (95 / 100)) 3
       \<and> py_round (np_quantile xs (95 / 100)) 3 \<le> py_round (np_quantile xs (99 / 100)) 3
       \<and> py_round (np_quantile xs (99 / 100)) 3 \<le> py_round (np_max xs) 3"
proof -
  have ne: "xs \<noteq> []" using assms by auto
  show ?thesis
    using np_quantile_bounds(1)[OF ne, of "5 / 10"] np_quantile_bounds(2)[OF ne, of "99 / 100"]
      np_quantile_mono[OF ne, of "5 / 10" "95 / 100"] np_quantile_mono[OF ne, of "95 / 100" "99 / 100"]
    by (simp add: py_round_mono)
qed

lemma calc_stats_best_fields:
  "1 < length df_best \<Longrightarrow>
     best_min (calc_stats self df_best df_worst) = PyFloat (py_round (np_min df_best) 3)
   \<and> best_max (calc_stats self df_best df_worst) = PyFloat (py_round (np_max df_best) 3)
   \<and> best_std (calc_stats self df_best df_worst) = PyFloat (py_round (np_std df_best) 3)
   \<and> best_p50 (calc_stats self df_best df_worst) = PyFloat (py_round (np_quantile df_best (5 / 10)) 3)
   \<and> best_p95 (calc_stats self df_best df_worst) = PyFloat (py_round (np_quantile df_best (95 / 100)) 3)
   \<and> best_p99 (calc_stats self df_best df_worst) = PyFloat (py_round (np_quantile df_best (99 / 100)) 3)"
  by (simp add: calc_stats_def calc_stats_best_def calc_stats_worst_def Let_def)

lemma calc_stats_worst_fields:
  "1 < length df_worst \<Longrightarrow>
     worst_min (calc_stats self df_best df_worst) = PyFloat (py_round (np_min df_worst) 3)
   \<and> worst_max (calc_stats self df_best df_worst) = PyFloat (py_round (np_max df_worst) 3)
   \<and> worst_std (calc_stats self df_best df_worst) = PyFloat (py_round (np_std df_worst) 3)
   \<and> worst_p50 (calc_stats self df_best df_worst) = PyFloat (py_round (np_quantile df_worst (5 / 10)) 3)
   \<and> worst_p95 (calc_stats self df_best df_worst) = PyFloat (py_round (np_quantile df_worst (95 / 100)) 3)
   \<and> worst_p99 (calc_stats self df_best df_worst) = PyFloat (py_round (np_quantile df_worst (99 / 100)) 3)"
  by (simp add: calc_stats_def calc_stats_best_def calc_stats_worst_def Let_def)

lemma np_min_ex: "np_min [3, 1, 2, 5] = 1" by (simp add: np_min_def)
lemma np_max_ex: "np_max [3, 1, 2, 5] = 5" by (simp add: np_max_def)
lemma np_q50_ex: "np_quantile [3, 1, 2, 5] (5 / 10) = 25 / 10" by (simp add: np_quantile_def Let_def)
lemma np_q95_ex: "np_quantile [3, 1, 2, 5] (95 / 100) = 47 / 10" by (simp add: np_quantile_def Let_def)
lemma np_q99_ex: "np_quantile [3, 1, 2, 5] (99 / 100) = 494 / 100" by (simp add: np_quantile_def Let_def)

section \<open>Statistics computation\<close>

text \<open>
  Claim C4. On a freshly constructed Stats object, a sample sequence of length exactly 1
  sets the average field of its case to the rounded value of the single sample and
  leaves std, min, max, p50, p95 and p99 of that case at the placeholder \<^verbatim>\<open>'---'\<close>; a
  sequence with more than one sample sets the average and also std, min, max, p50, p95
  and p99, each rounded to 3 decimals. The best case and the worst case are treated
  alike and independently.
\<close>

theorem calc_stats_by_sample_count:
  "(df_best = [x] \<longrightarrow>
      best_avg (calc_stats (Stats name nodes) df_best df_worst) = PyFloat (py_round x 3)
    \<and> best_std (calc_stats (Stats name nodes) df_best df_worst) = PyStr ''---''
    \<and> best_min (calc_stats (Stats name nodes) df_best df_worst) = PyStr ''---''
    \<and> best_max (calc_stats (Stats name nodes) df_best df_worst) = PyStr ''---''
    \<and> best_p50 (calc_stats (Stats name nodes) df_best df_worst) = PyStr ''---''
    \<and> best_p95 (calc_stats (Stats name nodes) df_best df_worst) = PyStr ''---''
    \<and> best_p99 (calc_stats (Stats name nodes) df_best df_worst) = PyStr ''---'')
 \<and> (df_worst = [y] \<longrightarrow>
      worst_avg (calc_stats (Stats name nodes) df_best df_worst) = PyFloat (py_round y 3)
    \<and> worst_std (calc_stats (Stats name nodes) df_best df_worst) = PyStr ''---''
    \<and> worst_min (calc_stats (Stats name nodes) df_best df_worst) = PyStr ''---''
    \<and> worst_max (calc_stats (Stats name nodes) df_best df_worst) = PyStr ''---''
    \<and> worst_p50 (calc_stats (Stats name nodes) df_best df_worst) = PyStr ''---''
    \<and> worst_p95 (calc_stats (Stats name nodes) df_best df_worst) = PyStr ''---''
    \<and> worst_p99 (calc_stats (Stats name nodes) df_best df_worst) = PyStr ''---'')
 \<and> (1 < length df_best \<longrightarrow>
      best_avg (calc_stats (Stats name nodes) df_best df_worst)
        = PyFloat (py_round (sum_list df_best / real (length df_best)) 3)
    \<and> best_std (calc_stats (Stats name nodes) df_best df_worst) = PyFloat (py_round (np_std df_best) 3)
    \<and> best_min (calc_stats (Stats name nodes) df_best df_worst) = PyFloat (py_round (np_min df_best) 3)
    \<and> best_max (calc_stats (Stats name nodes) df_best df_worst) = PyFloat (py_round (np_max df_best) 3)
    \<and> best_p50 (calc_stats (Stats name nodes) df_best df_worst)
        = PyFloat (py_round (np_quantile df_best (5 / 10)) 3)
    \<and> best_p95 (calc_stats (Stats name nodes) df_best df_worst)
        = PyFloat (py_round (np_quantile df_best (95 / 100)) 3)
    \<and> best_p99 (calc_stats (Stats name nodes) df_best df_worst)
        = PyFloat (py_round (np_quantile df_best (99 / 100)) 3))
 \<and> (1 < length df_worst \<longrightarrow>
      worst_avg (calc_stats (Stats name nodes) df_best df_worst)
        = PyFloat (py_round (sum_list df_worst / real (length df_worst)) 3)
    \<and> worst_std (calc_stats (Stats name nodes) df_best df_worst) = PyFloat (py_round (np_std df_worst) 3)
    \<and> worst_min (calc_stats (Stats name nodes) df_best df_worst) = PyFloat (py_round (np_min df_worst) 3)
    \<and> worst_max (calc_stats (Stats name nodes) df_best df_worst) = PyFloat (py_round (np_max df_worst) 3)
    \<and> worst_p50 (calc_stats (Stats name nodes) df_best df_worst)
        = PyFloat (py_round (np_quantile df_worst (5 / 10)) 3)
    \<and> worst_p95 (calc_stats (Stats name nodes) df_best df_worst)
        = PyFloat (py_round (np_quantile df_worst (95 / 100)) 3)
    \<and> worst_p99 (calc_stats (Stats name nodes) df_best df_worst)
        = PyFloat (py_round (np_quantile df_worst (99 / 100)) 3))"
proof -
  have ne: "1 < length xs \<Longrightarrow> xs \<noteq> []" for xs :: "real list" by auto
  show ?thesis
    by (auto simp add: calc_stats_def calc_stats_best_def calc_stats_worst_def Stats_def
          np_average_def Let_def dest: ne)
qed

theorem calc_stats_by_sample_count_witness:
  "best_avg (calc_stats (Stats ''p'' [''n'']) [12345 / 10000] [4, 2]) = PyFloat (1234 / 1000)
 \<and> best_std (calc_stats (Stats ''p'' [''n'']) [12345 / 10000] [4, 2]) = PyStr ''---''
 \<and> best_p99 (calc_stats (Stats ''p'' [''n'']) [12345 / 10000] [4, 2]) = PyStr ''---''
 \<and> worst_avg (calc_stats (Stats ''p'' [''n'']) [12345 / 10000] [4, 2]) = PyFloat 3
 \<and> worst_min (calc_stats (Stats ''p'' [''n'']) [12345 / 10000] [4, 2]) = PyFloat 2
 \<and> worst_max (calc_stats (Stats ''p'' [''n'']) [12345 / 10000] [4, 2]) = PyFloat 4
 \<and> worst_p50 (calc_stats (Stats ''p'' [''n'']) [12345 / 10000] [4, 2]) = PyFloat 3"
  using calc_stats_by_sample_count[of "[12345 / 10000]" "12345 / 10000" "''p''" "[''n'']" "[4, 2]" 0]
  by (simp add: py_round_def np_min_def np_max_def np_quantile_def Let_def)

text \<open>
  Claim C8. For every sample sequence of length at least 2 passed to \<^verbatim>\<open>calc_stats\<close>, the
  fields it computes satisfy min \<open>\<le>\<close> p50 \<open>\<le>\<close> p95 \<open>\<le>\<close> p99 \<open>\<le>\<close> max, for the best case
  and for the worst case: the percentiles interpolate linearly between ranks of the
  sorted samples, and rounding to 3 decimals is monotone.
\<close>

theorem calc_stats_percentiles_ordered:
  "(2 \<le> length df_best \<longrightarrow>
      (\<exists>lo p50 p95 p99 hi.
         best_min (calc_stats self df_best df_worst) = PyFloat lo
       \<and> best_p50 (calc_stats self df_best df_worst) = PyFloat p50
       \<and> best_p95 (calc_stats self df_best df_worst) = PyFloat p95
       \<and> best_p99 (calc_stats self df_best df_worst) = PyFloat p99
       \<and> best_max (calc_stats self df_best df_worst) = PyFloat hi
       \<and> lo \<le> p50 \<and> p50 \<le> p95 \<and> p95 \<le> p99 \<and> p99 \<le> hi))
 \<and> (2 \<le> length df_worst \<longrightarrow>
      (\<exists>lo p50 p95 p99 hi.
         worst_min (calc_stats self df_best df_worst) = PyFloat lo
       \<and> worst_p50 (calc_stats self df_best df_worst) = PyFloat p50
       \<and> worst_p95 (calc_stats self df_best df_worst) = PyFloat p95
       \<and> worst_p99 (calc_stats self df_best df_worst) = PyFloat p99
       \<and> worst_max (calc_stats self df_best df_worst) = PyFloat hi
       \<and> lo \<le> p50 \<and> p50 \<le> p95 \<and> p95 \<le> p99 \<and> p99 \<le> hi))"
proof (intro conjI impI)
  assume len: "2 \<le> length df_best"
  then have "1 < length df_best" by simp
  from calc_stats_best_fields[OF this, of self df_worst] rounded_chain[OF len]
  show "\<exists>lo p50 p95 p99 hi.
         best_min (calc_stats self df_best df_worst) = PyFloat lo
       \<and> best_p50 (calc_stats self df_best df_worst) = PyFloat p50
       \<and> best_p95 (calc_stats self df_best df_worst) = PyFloat p95
       \<and> best_p99 (calc_stats self df_best df_worst) = PyFloat p99
       \<and> best_max (calc_stats self df_best df_worst) = PyFloat hi
       \<and> lo \<le> p50 \<and> p50 \<le> p95 \<and> p95 \<le> p99 \<and> p99 \<le> hi"
    by simp
next
  assume len: "2 \<le> length df_worst"
  then have "1 < length df_worst" by simp
  from calc_stats_worst_fields[OF this, of self df_best] rounded_chain[OF len]
  show "\<exists>lo p50 p95 p99 hi.
         worst_min (calc_stats self df_best df_worst) = PyFloat lo
       \<and> worst_p50 (calc_stats self df_best df_worst) = PyFloat p50
       \<and> worst_p95 (calc_stats self df_best df_worst) = PyFloat p95
       \<and> worst_p99 (calc_stats self df_best df_worst) = PyFloat p99
       \<and> worst_max (calc_stats self df_best df_worst) = PyFloat hi
       \<and> lo \<le> p50 \<and> p50 \<le> p95 \<and> p95 \<le> p99 \<and> p99 \<le> hi"
    by simp
qed

theorem calc_stats_percentiles_ordered_witness:
  "2 \<le> length [3, 1, 2, 5 :: real]
   \<and> best_min (calc_stats (Stats ''p'' []) [3, 1, 2, 5] [4, 2]) = PyFloat 1
   \<and> best_p50 (calc_stats (Stats ''p'' []) [3, 1, 2, 5] [4, 2]) = PyFloat (25 / 10)
   \<and> best_p95 (calc_stats (Stats ''p'' []) [3, 1, 2, 5] [4, 2]) = PyFloat (47 / 10)
   \<and> best_p99 (calc_stats (Stats ''p'' []) [3, 1, 2, 5] [4, 2]) = PyFloat (494 / 100)
   \<and> best_max (calc_stats (Stats ''p'' []) [3, 1, 2, 5] [4, 2]) = PyFloat 5
   \<and> worst_min (calc_stats (Stats ''p'' []) [3, 1, 2, 5] [4, 2]) = PyFloat 2
   \<and> worst_p50 (calc_stats (Stats ''p'' []) [3, 1, 2, 5] [4, 2]) = PyFloat 3
   \<and> worst_max (calc_stats (Stats ''p'' []) [3, 1, 2, 5] [4, 2]) = PyFloat 4"
  using calc_stats_percentiles_ordered[of "[3, 1, 2, 5]" "Stats ''p'' []" "[4, 2]"]
  by (simp add: calc_stats_def calc_stats_best_def calc_stats_worst_def Let_def
        np_min_ex np_max_ex np_q50_ex np_q95_ex np_q99_ex py_round_def
        np_min_def np_max_def np_quantile_def)

text \<open>
  Claim C10. \<^verbatim>\<open>calc_stats\<close> writes only the fourteen statistics fields: the path name,
  the node names and the nine file name fields are unchanged; when a sequence has at
  most one sample, std, min, max, p50, p95 and p99 of its case keep the values they
  held before the call; and every field \<^verbatim>\<open>calc_stats\<close> assigns holds a float afterwards,
  never the placeholder \<^verbatim>\<open>'---'\<close>, which only the constructor writes.
\<close>

theorem calc_stats_frame:
  "target_path_name (calc_stats self df_best df_worst) = target_path_name self
 \<and> node_names (calc_stats self df_best df_worst) = node_names self
 \<and> filename_messageflow (calc_stats self df_best df_worst) = filename_messageflow self
 \<and> filename_messageflow_short (calc_stats self df_best df_worst) = filename_messageflow_short self
 \<and> filename_hist_total (calc_stats self df_best df_worst) = filename_hist_total self
 \<and> filename_hist_best (calc_stats self df_best df_worst) = filename_hist_best self
 \<and> filename_timeseries_best (calc_stats self df_best df_worst) = filename_timeseries_best self
 \<and> filename_stacked_bar_best (calc_stats self df_best df_worst) = filename_stacked_bar_best self
 \<and> filename_hist_worst (calc_stats self df_best df_worst) = filename_hist_worst self
 \<and> filename_timeseries_worst (calc_stats self df_best df_worst) = filename_timeseries_worst self
 \<and> filename_stacked_bar_worst (calc_stats self df_best df_worst) = filename_stacked_bar_worst self
 \<and> (length df_best \<le> 1 \<longrightarrow>
      best_std (calc_stats self df_best df_worst) = best_std self
    \<and> best_min (calc_stats self df_best df_worst) = best_min self
    \<and> best_max (calc_stats self df_best df_worst) = best_max self
    \<and> best_p50 (calc_stats self df_best df_worst) = best_p50 self
    \<and> best_p95 (calc_stats self df_best df_worst) = best_p95 self
    \<and> best_p99 (calc_stats self df_best df_worst) = best_p99 self)
 \<and> (length df_worst \<le> 1 \<longrightarrow>
      worst_std (calc_stats self df_best df_worst) = worst_std self
    \<and> worst_min (calc_stats self df_best df_worst) = worst_min self
    \<and> worst_max (calc_stats self df_best df_worst) = worst_max self
    \<and> worst_p50 (calc_stats self df_best df_worst) = worst_p50 self
    \<and> worst_p95 (calc_stats self df_best df_worst) = worst_p95 self
    \<and> worst_p99 (calc_stats self df_best df_worst) = worst_p99 self)
 \<and> best_avg (calc_stats self df_best df_worst) \<noteq> PyStr ''---''
 \<and> worst_avg (calc_stats self df_best df_worst) \<noteq> PyStr ''---''
 \<and> (1 < length df_best \<longrightarrow>
      best_std (calc_stats self df_best df_worst) \<noteq> PyStr ''---''
    \<and> best_min (calc_stats self df_best df_worst) \<noteq> PyStr ''---''
    \<and> best_max (calc_stats self df_best df_worst) \<noteq> PyStr ''---''
    \<and> best_p50 (calc_stats self df_best df_worst) \<noteq> PyStr ''---''
    \<and> best_p95 (calc_stats self df_best df_worst) \<noteq> PyStr ''---''
    \<and> best_p99 (calc_stats self df_best df_worst) \<noteq> PyStr ''---'')
 \<and> (1 < length df_worst \<longrightarrow>
      worst_std (calc_stats self df_best df_worst) \<noteq> PyStr ''---''
    \<and> worst_min (calc_stats self df_best df_worst) \<noteq> PyStr ''---''
    \<and> worst_max (calc_stats self df_best df_worst) \<noteq> PyStr ''---''
    \<and> worst_p50 (calc_stats self df_best df_worst) \<noteq> PyStr ''---''
    \<and> worst_p95 (calc_stats self df_best df_worst) \<noteq> PyStr ''---''
    \<and> worst_p99 (calc_stats self df_best df_worst) \<noteq> PyStr ''---'')
 \<and> stats.more (calc_stats self df_best df_worst) = stats.more self"
  by (simp add: calc_stats_def calc_stats_best_def calc_stats_worst_def np_average_def Let_def)

theorem calc_stats_frame_witness:
  "length [7 :: real] \<le> 1 \<and> length ([] :: real list) \<le> 1
 \<and> best_std (calc_stats ((Stats ''p'' [])\<lparr>best_std := PyFloat 9, worst_p99 := PyFloat 8\<rparr>) [7] [])
      = PyFloat 9
 \<and> worst_p99 (calc_stats ((Stats ''p'' [])\<lparr>best_std := PyFloat 9, worst_p99 := PyFloat 8\<rparr>) [7] [])
      = PyFloat 8
 \<and> worst_avg (calc_stats ((Stats ''p'' [])\<lparr>best_std := PyFloat 9, worst_p99 := PyFloat 8\<rparr>) [7] [])
      = PyNaN
 \<and> target_path_name (calc_stats ((Stats ''p'' [])\<lparr>best_std := PyFloat 9, worst_p99 := PyFloat 8\<rparr>) [7] [])
      = ''p''"
  using calc_stats_frame[of "(Stats ''p'' [])\<lparr>best_std := PyFloat 9, worst_p99 := PyFloat 8\<rparr>" "[7]" "[]"]
  by (simp add: Stats_def calc_stats_def calc_stats_best_def calc_stats_worst_def np_average_def Let_def)

section \<open>Path configuration resolution: the resolved dictionary\<close>

lemma map_of_modify_dictionary:
  "map_of (modify_dictionary d t v) k =
     (case map_of d k of None \<Rightarrow> None | Some old \<Rightarrow> Some (if sublist t k then v else old))"
  by (induction d) (auto simp: modify_dictionary_def)

lemma map_of_default_dictionary:
  "map_of (fold (\<lambda>p d. AList.update p v d) ps d0) k =
     (if k \<in> set ps then Some v else map_of d0 k)"
  by (induction ps arbitrary: d0) (auto simp: AList.update_conv')

lemma map_of_apply_overrides:
  "map_of (fold (\<lambda>e d. modify_dictionary d (entry_name e) (entry_flags e)) es d) k =
     (case map_of d k of
        None \<Rightarrow> None
      | Some old \<Rightarrow>
          Some (case filter (\<lambda>e. sublist (entry_name e) k) es of
                  [] \<Rightarrow> old
                | m # ms \<Rightarrow> entry_flags (last (m # ms))))"
proof (induction es arbitrary: d)
  case Nil
  then show ?case by (simp split: option.splits)
next
  case (Cons e es)
  show ?case
    by (simp add: Cons.IH map_of_modify_dictionary split: option.splits list.splits)
qed

text \<open>
  Claim C3. \<^verbatim>\<open>get_include_first_last_callback\<close> maps exactly the declared path names.
  A declared path name that contains the name string of no configuration entry keeps
  the default pair (true, true). Otherwise it receives the pair of the last entry, in
  file order, whose name string it contains; a flag the entry does not give is true
  (\<open>entry_flags\<close>).
\<close>

theorem path_configuration_resolution:
  "map_of (get_include_first_last_callback a arch) p =
     (if p \<in> set (paths arch) then
        Some (case filter (\<lambda>e. sublist (entry_name e) p) (target_path_json a) of
                [] \<Rightarrow> (True, True)
              | m # ms \<Rightarrow> entry_flags (last (m # ms)))
      else None)"
  by (simp add: get_include_first_last_callback_def Let_def map_of_apply_overrides
        map_of_default_dictionary)

theorem path_configuration_resolution_witness:
  "map (map_of (get_include_first_last_callback
     \<lparr> target_path_json =
         [\<lparr>entry_name = ''PathA'', include_first_callback = Some False, include_last_callback = None\<rparr>,
          \<lparr>entry_name = ''A_x'', include_first_callback = None, include_last_callback = Some False\<rparr>],
       architecture_file_path = ''arch.yaml'', message_flow = False, sim_time = False, force = False \<rparr>
     \<lparr> paths = [''PathA_0'', ''PathA_x'', ''other''],
       arch_get_path = (\<lambda>n. \<lparr>path_node_names = [], path_verify = True\<rparr>) \<rparr>))
     [''PathA_0'', ''PathA_x'', ''other'', ''undeclared'']
   = [Some (False, True), Some (True, False), Some (True, True), None]"
  using path_configuration_resolution[of _ _ "''PathA_0''"]
  by (simp add: path_configuration_resolution entry_flags_def sublist_code)

section \<open>The boundary-callback validator: its verdicts\<close>

lemma column_length: "length (cells (getitem df c)) = length (rows df)"
  by (simp add: getitem_def)

text \<open>
  Claim C5. On a records table with at least one column, the validator returns
  \<open>is_first_valid = false\<close> if and only if the first column has zero rows, and
  \<open>is_last_valid = false\<close> if and only if the last column has zero rows; when both
  columns hold at least one sample, both flags are true.
\<close>

theorem validator_flags:
  "columns df \<noteq> [] \<Longrightarrow>
     (\<exists>is_first_valid is_last_valid.
        snd (check_the_first_last_callback_is_valid df) = Inr (is_first_valid, is_last_valid)
      \<and> (\<not> is_first_valid \<longleftrightarrow> length (cells (getitem df (hd (columns df)))) = 0)
      \<and> (\<not> is_last_valid \<longleftrightarrow> length (cells (getitem df (last (columns df)))) = 0)
      \<and> (0 < length (cells (getitem df (hd (columns df))))
           \<and> 0 < length (cells (getitem df (last (columns df))))
          \<longrightarrow> is_first_valid \<and> is_last_valid))"
  by (cases "columns df") (auto simp: check_the_first_last_callback_is_valid_def Let_def)

theorem validator_flags_witness:
  "columns \<lparr> columns = [''cb_start'', ''pub''], dtypes = (\<lambda>c. Int64),
             rows = [(\<lambda>c. if c = ''cb_start'' then Some 5 else None)] \<rparr> \<noteq> []
   \<and> snd (check_the_first_last_callback_is_valid
        \<lparr> columns = [''cb_start'', ''pub''], dtypes = (\<lambda>c. Int64),
          rows = [(\<lambda>c. if c = ''cb_start'' then Some 5 else None)] \<rparr>) = Inr (True, True)
   \<and> snd (check_the_first_last_callback_is_valid
        \<lparr> columns = [''cb_start'', ''pub''], dtypes = (\<lambda>c. Int64), rows = [] \<rparr>) = Inr (False, False)"
  using validator_flags[of "\<lparr> columns = [''cb_start'', ''pub''], dtypes = (\<lambda>c. Int64),
          rows = [(\<lambda>c. if c = ''cb_start'' then Some 5 else None)] \<rparr>"]
    validator_flags[of "\<lparr> columns = [''cb_start'', ''pub''], dtypes = (\<lambda>c. Int64), rows = [] \<rparr>"]
  by (auto simp: column_length)

section \<open>The duration estimator: when it returns None\<close>

lemma series_min_empty: "cells s = [] \<Longrightarrow> series_min s = na_value (dtype s)"
  by (simp add: series_min_def List.map_filter_simps)

lemma series_max_empty: "cells s = [] \<Longrightarrow> series_max s = na_value (dtype s)"
  by (simp add: series_max_def List.map_filter_simps)

lemma try_no_columns: "columns df = [] \<Longrightarrow> messageflow_duration_try df b = Inl IndexError"
  by (simp add: messageflow_duration_try_def)

lemma try_no_rows_Int64:
  assumes "columns df \<noteq> []" "rows df = []" "dtypes df (hd (columns df)) = Int64"
  shows "messageflow_duration_try df b = Inr PyNA"
proof -
  obtain c cs where cols: "columns df = c # cs" using assms(1) by (cases "columns df") auto
  have mn: "series_min (getitem df c) = PyNA"
    using assms(2,3) cols by (simp add: series_min_empty getitem_def)
  have mx: "series_max (getitem df c) = PyNA"
    using assms(2,3) cols by (simp add: series_max_empty getitem_def)
  have "series_max (getitem df (last (columns df))) = na_value (dtypes df (last (columns df)))"
    using assms(2) by (simp add: series_max_empty getitem_def)
  then have sub: "py_sub (series_max (getitem df (last (columns df)))) PyNA = PyNA"
    by (cases "dtypes df (last (columns df))") simp_all
  show ?thesis
  proof (cases b)
    case True
    then show ?thesis by (simp add: messageflow_duration_try_def cols mn mx Let_def)
  next
    case False
    then show ?thesis
      using sub by (simp add: messageflow_duration_try_def cols mn Let_def del: last.simps)
  qed
qed

text \<open>
  On a table without samples the estimator is meant to return \<^verbatim>\<open>None\<close>, which its caller
  reads as "no traffic". It does so in both window modes on every table without
  columns, and on every table whose first or last column has zero rows and whose first
  column is a nullable integer column.
\<close>

lemma duration_none_without_samples:
  "(columns df = [] \<longrightarrow> get_messageflow_durationtime df check_by_input = PyNone)
 \<and> (columns df \<noteq> []
      \<and> (length (cells (getitem df (hd (columns df)))) = 0
          \<or> length (cells (getitem df (last (columns df)))) = 0)
      \<and> dtypes df (hd (columns df)) = Int64
     \<longrightarrow> get_messageflow_durationtime df check_by_input = PyNone)"
proof (intro conjI impI)
  assume "columns df = []"
  then show "get_messageflow_durationtime df check_by_input = PyNone"
    by (simp add: get_messageflow_durationtime_def try_no_columns)
next
  assume h: "columns df \<noteq> []
      \<and> (length (cells (getitem df (hd (columns df)))) = 0
          \<or> length (cells (getitem df (last (columns df)))) = 0)
      \<and> dtypes df (hd (columns df)) = Int64"
  then have "rows df = []" by (auto simp: column_length)
  with h have "messageflow_duration_try df check_by_input = Inr PyNA"
    by (intro try_no_rows_Int64) simp_all
  then show "get_messageflow_durationtime df check_by_input = PyNone"
    by (simp add: get_messageflow_durationtime_def)
qed

text \<open>
  Claim C1. For every records table whose first or last column has zero rows,
  \<^verbatim>\<open>get_messageflow_durationtime\<close> is to return \<^verbatim>\<open>None\<close> in both window modes. The code
  misses this on a zero-row table with float columns: the reductions of an empty float
  column are \<^verbatim>\<open>nan\<close>, \<^verbatim>\<open>(nan - nan) * 1e-9\<close> is \<^verbatim>\<open>nan\<close>, and the final guard
  \<^verbatim>\<open>isinstance(duration, (int, float))\<close> lets \<^verbatim>\<open>nan\<close> pass, a float that is not a finite
  number. The function returns \<^verbatim>\<open>nan\<close> in both modes, where the same table with nullable
  integer columns gives \<^verbatim>\<open>None\<close>.
\<close>

theorem duration_nan_on_empty_float_table:
  "length (cells (getitem (empty_records Float64) (hd (columns (empty_records Float64))))) = 0
 \<and> length (cells (getitem (empty_records Float64) (last (columns (empty_records Float64))))) = 0
 \<and> get_messageflow_durationtime (empty_records Float64) True = PyNaN
 \<and> get_messageflow_durationtime (empty_records Float64) False = PyNaN
 \<and> get_messageflow_durationtime (empty_records Int64) True = PyNone
 \<and> get_messageflow_durationtime (empty_records Int64) False = PyNone"
  by (simp add: get_messageflow_durationtime_def messageflow_duration_try_def getitem_def
        series_min_def series_max_def empty_records_def)

section \<open>Per-path orchestration: the case loop and the settled records\<close>

lemma loop_result_stacked_bar:
  "snd (response_time_loop d (p\<lparr>stacked_bar_error := sb\<rparr>) n x cs df)
     = snd (response_time_loop d p n x cs df)"
  by (induction cs arbitrary: df) (simp_all add: split_def Let_def)

lemma loop_events_stacked_bar:
  "filter outside_stacked_bar (fst (response_time_loop d (p\<lparr>stacked_bar_error := sb\<rparr>) n x cs df))
     = filter outside_stacked_bar (fst (response_time_loop d p n x cs df))"
  by (induction cs arbitrary: df) (simp_all add: split_def Let_def split: option.splits)

lemma loop_no_extraction:
  "filter is_extraction (fst (response_time_loop d p n x cs df)) = []"
  by (induction cs arbitrary: df) (simp_all add: split_def Let_def split: option.splits)

lemma loop_dict:
  "snd (response_time_loop d p n x cs df)
     = fold (\<lambda>c. AList.update c (response_time p c x)) cs df"
  by (induction cs arbitrary: df) (simp_all add: split_def Let_def)

lemma loop_dict_cases:
  "map_of (snd (response_time_loop d p n x [''best'', ''worst'', ''all''] [])) ''best''
     = Some (response_time p ''best'' x)"
  "map_of (snd (response_time_loop d p n x [''best'', ''worst'', ''all''] [])) ''worst''
     = Some (response_time p ''worst'' x)"
  by (simp_all add: loop_dict)

lemma loop_exports:
  "c \<in> set cs \<Longrightarrow>
     ToCsv (d @ ''/'' @ n @ ''_response_time_'' @ c @ ''.csv'') \<in> set (fst (response_time_loop d p n x cs df))
   \<and> ExportGraph d (n @ ''_timeseries_'' @ c) \<in> set (fst (response_time_loop d p n x cs df))
   \<and> ExportGraph d (n @ ''_hist_'' @ c) \<in> set (fst (response_time_loop d p n x cs df))"
  by (induction cs arbitrary: df) (auto simp: split_def Let_def)

lemma loop_warnings:
  "c \<in> set cs \<Longrightarrow> stacked_bar_error p c = Some msg \<Longrightarrow>
     Log WARNING (''    Failed to create stacked bar graph: '' @ n @ '', '' @ c)
       \<in> set (fst (response_time_loop d p n x cs df))
   \<and> Log WARNING msg \<in> set (fst (response_time_loop d p n x cs df))"
  by (induction cs arbitrary: df) (auto simp: split_def Let_def)

lemma loop_saves:
  "c \<in> set cs \<Longrightarrow> stacked_bar_error p c = None \<Longrightarrow>
     SaveStackedBar (d @ ''/'' @ n @ ''_stacked_bar_'' @ c @ ''.html'')
       \<in> set (fst (response_time_loop d p n x cs df))"
  by (induction cs arbitrary: df) (auto simp: split_def Let_def)

lemma analyze_records_no_input:
  "get_messageflow_durationtime r True = PyNone \<Longrightarrow>
   analyze_records a d arch p n x r =
     ([Log INFO ''  message flow'',
       Log WARNING (''    No-traffic and No-input in the path: '' @ n)],
      Inr (Stats n (path_node_names (arch_get_path arch n))))"
  by (simp add: analyze_records_def Let_def)

lemma analyze_records_traffic:
  assumes "get_messageflow_durationtime r True \<noteq> PyNone"
    and "get_messageflow_durationtime r False \<noteq> PyNone"
  shows "analyze_records a d arch p n x r =
     ([Log INFO ''  message flow'', ExportGraph d (n @ ''_messageflow_short'')] @
      (if message_flow a then [ExportGraph d (n @ ''_messageflow'')] else []) @
      [Log INFO ''  response time''] @
      fst (response_time_loop d p n x [''best'', ''worst'', ''all''] []) @
      [Log INFO (''---'' @ n @ ''---''),
       LogVars (store_filename
                  (calc_stats (Stats n (path_node_names (arch_get_path arch n)))
                     (response_time p ''best'' x) (response_time p ''worst'' x))
                  n (message_flow a))],
      Inr (store_filename
             (calc_stats (Stats n (path_node_names (arch_get_path arch n)))
                (response_time p ''best'' x) (response_time p ''worst'' x))
             n (message_flow a)))"
proof -
  obtain ev df where loop: "response_time_loop d p n x [''best'', ''worst'', ''all''] [] = (ev, df)"
    by (cases "response_time_loop d p n x [''best'', ''worst'', ''all''] []")
  have b: "map_of df ''best'' = Some (response_time p ''best'' x)"
    and w: "map_of df ''worst'' = Some (response_time p ''worst'' x)"
    using loop_dict_cases[of d p n x, unfolded loop] by simp_all
  show ?thesis
    using assms by (simp add: analyze_records_def Let_def loop b w del: response_time_loop.simps)
qed

lemma analyze_records_returns: "\<exists>s. snd (analyze_records a d arch p n x r) = Inr s"
proof (cases "get_messageflow_durationtime r True = PyNone")
  case True
  then show ?thesis by (simp add: analyze_records_no_input)
next
  case False
  show ?thesis
  proof (cases "get_messageflow_durationtime r False = PyNone")
    case True
    with False show ?thesis by (simp add: analyze_records_def Let_def split_def)
  next
    case no: False
    show ?thesis by (simp add: analyze_records_traffic[OF False no] del: response_time_loop.simps)
  qed
qed

lemma analyze_records_no_extraction:
  "filter is_extraction (fst (analyze_records a d arch p n x r)) = []"
proof (cases "get_messageflow_durationtime r True = PyNone")
  case True
  then show ?thesis by (simp add: analyze_records_no_input)
next
  case False
  show ?thesis
  proof (cases "get_messageflow_durationtime r False = PyNone")
    case True
    with False show ?thesis by (simp add: analyze_records_def Let_def split_def)
  next
    case no: False
    show ?thesis
      by (simp add: analyze_records_traffic[OF False no] loop_no_extraction
            del: response_time_loop.simps)
  qed
qed

lemma analyze_records_stacked_bar:
  "snd (analyze_records a d arch (p\<lparr>stacked_bar_error := sb\<rparr>) n x r)
     = snd (analyze_records a d arch p n x r)
   \<and> filter outside_stacked_bar (fst (analyze_records a d arch (p\<lparr>stacked_bar_error := sb\<rparr>) n x r))
     = filter outside_stacked_bar (fst (analyze_records a d arch p n x r))"
proof (cases "get_messageflow_durationtime r True = PyNone")
  case True
  then show ?thesis by (simp add: analyze_records_no_input)
next
  case False
  show ?thesis
  proof (cases "get_messageflow_durationtime r False = PyNone")
    case True
    with False show ?thesis by (simp add: analyze_records_def Let_def split_def)
  next
    case no: False
    show ?thesis
      by (simp add: analyze_records_traffic[OF False no] loop_events_stacked_bar
            del: response_time_loop.simps)
  qed
qed

lemma validator_eq:
  "columns df \<noteq> [] \<Longrightarrow>
   check_the_first_last_callback_is_valid df =
     (if rows df = [] then
        [Log WARNING ''  The first callback is invalid'', Log WARNING ''  The last callback is invalid'']
      else [],
      Inr (rows df \<noteq> [], rows df \<noteq> []))"
  by (cases "columns df")
     (simp_all add: check_the_first_last_callback_is_valid_def column_length Let_def del: last.simps)

lemma analyze_path_eq:
  assumes key: "map_of dict n = Some (f0, l0)"
    and cols: "columns (to_records (app_get_path app n) f0 l0) \<noteq> []"
  shows "analyze_path a d arch app n dict x =
     ([Log INFO (''Processing: '' @ n), ToRecords n f0 l0] @
      fst (check_the_first_last_callback_is_valid (to_records (app_get_path app n) f0 l0)) @
      (if rows (to_records (app_get_path app n) f0 l0) \<noteq> [] then [] else [ToRecords n False False]) @
      fst (analyze_records a d arch (app_get_path app n) n x
             (if rows (to_records (app_get_path app n) f0 l0) \<noteq> []
              then to_records (app_get_path app n) f0 l0
              else to_records (app_get_path app n) False False)),
      snd (analyze_records a d arch (app_get_path app n) n x
             (if rows (to_records (app_get_path app n) f0 l0) \<noteq> []
              then to_records (app_get_path app n) f0 l0
              else to_records (app_get_path app n) False False)))"
  by (simp add: analyze_path_def key validator_eq[OF cols] Let_def split_def)

lemma analyze_path_returns:
  assumes "map_of dict n = Some (f0, l0)"
    and "columns (to_records (app_get_path app n) f0 l0) \<noteq> []"
  shows "\<exists>s. snd (analyze_path a d arch app n dict x) = Inr s"
  using analyze_records_returns by (simp add: analyze_path_eq[OF assms])

lemma traced_duration:
  "get_messageflow_durationtime traced_records True = PyFloat 2"
  "get_messageflow_durationtime traced_records False = PyFloat (1 / 2)"
  by (simp_all add: get_messageflow_durationtime_def messageflow_duration_try_def traced_records_def
        getitem_def series_min_def series_max_def wrap_int64_def)


lemma sample_idle_records:
  "to_records (app_get_path sample_app ''idle'') f l = empty_records Int64"
  "to_records (app_get_path sample_app ''float_idle'') f l = empty_records Float64"
  "to_records (app_get_path sample_app ''planning'') f l = traced_records"
  "to_records (app_get_path sample_app ''sensing'') f l =
     (if f then empty_records Int64 else traced_records)"
  by (simp_all add: sample_app_def)

lemma sample_tables:
  "columns (empty_records t) = [''callback_start'', ''publish'']"
  "rows (empty_records t) = []"
  "dtypes (empty_records t) c = t"
  "columns traced_records = [''callback_start'', ''publish'']"
  "rows traced_records \<noteq> []"
  by (simp_all add: empty_records_def traced_records_def)

text \<open>
  Claim C6. When the validator reports a boundary callback invalid, \<^verbatim>\<open>analyze_path\<close>
  extracts the records exactly once more, with the inclusion of an invalid boundary
  callback disabled and the inclusion flag of a boundary reported valid as configured,
  before any further analysis; all further analysis runs on the records extracted last,
  and no third extraction follows. When both boundaries are valid the records are
  extracted once, with the configured flags. (The script overwrites both flags with the
  validator's verdicts. A records table is rectangular, so the two verdicts agree and a
  retry disables both boundaries: a boundary reported valid next to an invalid one,
  whose flag the assignment would set to true whatever the configuration, does not
  occur.)
\<close>

theorem boundary_retry_once:
  assumes "map_of dict n = Some (include_first, include_last)"
    and "columns (to_records (app_get_path app n) include_first include_last) \<noteq> []"
  shows "\<exists>is_first_valid is_last_valid.
     snd (check_the_first_last_callback_is_valid
            (to_records (app_get_path app n) include_first include_last))
       = Inr (is_first_valid, is_last_valid)
   \<and> (let retry_first = (if is_first_valid then include_first else False);
           retry_last = (if is_last_valid then include_last else False);
           retry = [ToRecords n retry_first retry_last];
           records = (if is_first_valid \<and> is_last_valid
                      then to_records (app_get_path app n) include_first include_last
                      else to_records (app_get_path app n) retry_first retry_last)
       in fst (analyze_path a d arch app n dict x) =
            [Log INFO (''Processing: '' @ n), ToRecords n include_first include_last] @
            fst (check_the_first_last_callback_is_valid
                   (to_records (app_get_path app n) include_first include_last)) @
            (if is_first_valid \<and> is_last_valid then [] else retry) @
            fst (analyze_records a d arch (app_get_path app n) n x records)
        \<and> snd (analyze_path a d arch app n dict x) =
            snd (analyze_records a d arch (app_get_path app n) n x records)
        \<and> filter is_extraction (fst (analyze_path a d arch app n dict x)) =
            [ToRecords n include_first include_last] @
            (if is_first_valid \<and> is_last_valid then [] else retry))"
  by (simp add: analyze_path_eq[OF assms] validator_eq[OF assms(2)] Let_def
        analyze_records_no_extraction)

theorem boundary_retry_once_witness:
  "map_of [(''sensing'', True, True)] ''sensing'' = Some (True, True)
 \<and> columns (to_records (app_get_path sample_app ''sensing'') True True) \<noteq> []
 \<and> snd (check_the_first_last_callback_is_valid
          (to_records (app_get_path sample_app ''sensing'') True True)) = Inr (False, False)
 \<and> filter is_extraction
      (fst (analyze_path sample_args ''out'' (sample_arch [''sensing'']) sample_app ''sensing''
              [(''sensing'', True, True)] ''system_time''))
    = [ToRecords ''sensing'' True True, ToRecords ''sensing'' False False]
 \<and> snd (analyze_path sample_args ''out'' (sample_arch [''sensing'']) sample_app ''sensing''
              [(''sensing'', True, True)] ''system_time'')
    = snd (analyze_records sample_args ''out'' (sample_arch [''sensing''])
             (app_get_path sample_app ''sensing'') ''sensing'' ''system_time'' traced_records)"
  using boundary_retry_once[of "[(''sensing'', True, True)]" "''sensing''" True True sample_app
      sample_args "''out''" "sample_arch [''sensing'']" "''system_time''"]
  by (auto simp: sample_app_def empty_records_def Let_def
        check_the_first_last_callback_is_valid_def getitem_def)

section \<open>Per-path orchestration: stacked-bar failures\<close>

lemma analyze_path_stacked_bar:
  "snd (analyze_path a d arch
          (app\<lparr>app_get_path := (app_get_path app)(n := (app_get_path app n)\<lparr>stacked_bar_error := sb\<rparr>)\<rparr>)
          n dict x)
     = snd (analyze_path a d arch app n dict x)
 \<and> filter outside_stacked_bar
      (fst (analyze_path a d arch
          (app\<lparr>app_get_path := (app_get_path app)(n := (app_get_path app n)\<lparr>stacked_bar_error := sb\<rparr>)\<rparr>)
          n dict x))
     = filter outside_stacked_bar (fst (analyze_path a d arch app n dict x))"
  by (auto simp: analyze_path_def Let_def split_def analyze_records_stacked_bar
        split: option.splits sum.splits)

lemma analyze_path_traffic:
  assumes key: "map_of dict n = Some (f0, l0)"
    and traffic: "\<forall>f l. columns (to_records (app_get_path app n) f l) \<noteq> []
        \<and> get_messageflow_durationtime (to_records (app_get_path app n) f l) True \<noteq> PyNone
        \<and> get_messageflow_durationtime (to_records (app_get_path app n) f l) False \<noteq> PyNone"
  shows "set (fst (response_time_loop d (app_get_path app n) n x [''best'', ''worst'', ''all''] []))
           \<subseteq> set (fst (analyze_path a d arch app n dict x))"
    and "snd (analyze_path a d arch app n dict x) =
           Inr (store_filename
                  (calc_stats (Stats n (path_node_names (arch_get_path arch n)))
                     (response_time (app_get_path app n) ''best'' x)
                     (response_time (app_get_path app n) ''worst'' x))
                  n (message_flow a))"
proof -
  define r where "r = (if rows (to_records (app_get_path app n) f0 l0) \<noteq> []
              then to_records (app_get_path app n) f0 l0
              else to_records (app_get_path app n) False False)"
  have t: "get_messageflow_durationtime r True \<noteq> PyNone"
    and f: "get_messageflow_durationtime r False \<noteq> PyNone"
    using traffic by (simp_all add: r_def)
  have cols: "columns (to_records (app_get_path app n) f0 l0) \<noteq> []" using traffic by simp
  show "set (fst (response_time_loop d (app_get_path app n) n x [''best'', ''worst'', ''all''] []))
           \<subseteq> set (fst (analyze_path a d arch app n dict x))"
    unfolding analyze_path_eq[OF key cols] r_def[symmetric] analyze_records_traffic[OF t f]
    by (simp del: response_time_loop.simps) blast
  show "snd (analyze_path a d arch app n dict x) =
           Inr (store_filename
                  (calc_stats (Stats n (path_node_names (arch_get_path arch n)))
                     (response_time (app_get_path app n) ''best'' x)
                     (response_time (app_get_path app n) ''worst'' x))
                  n (message_flow a))"
    unfolding analyze_path_eq[OF key cols] r_def[symmetric] analyze_records_traffic[OF t f]
    by simp
qed

text \<open>
  Claim C9. The exception raised by rendering the stacked-bar plot of a latency case is
  caught: the value \<^verbatim>\<open>analyze_path\<close> returns (the final statistics, or the exception of
  another step) and all its events other than stacked-bar saves and warnings are the
  same whatever the stacked-bar renderings do. When the response-time branch is reached
  and the rendering of a case fails, the two warnings are logged, the CSV, time-series
  and histogram artifacts of every case are produced, the stacked-bar plot of every case
  that renders is saved, and the statistics are computed from the best and worst case.
\<close>

theorem stacked_bar_failure_isolated:
  "snd (analyze_path a d arch
          (app\<lparr>app_get_path := (app_get_path app)(n := (app_get_path app n)\<lparr>stacked_bar_error := sb\<rparr>)\<rparr>)
          n dict x)
     = snd (analyze_path a d arch app n dict x)
 \<and> filter outside_stacked_bar
      (fst (analyze_path a d arch
          (app\<lparr>app_get_path := (app_get_path app)(n := (app_get_path app n)\<lparr>stacked_bar_error := sb\<rparr>)\<rparr>)
          n dict x))
     = filter outside_stacked_bar (fst (analyze_path a d arch app n dict x))
 \<and> (map_of dict n = Some (f0, l0)
      \<and> (\<forall>f l. columns (to_records (app_get_path app n) f l) \<noteq> []
             \<and> get_messageflow_durationtime (to_records (app_get_path app n) f l) True \<noteq> PyNone
             \<and> get_messageflow_durationtime (to_records (app_get_path app n) f l) False \<noteq> PyNone)
      \<and> failed \<in> set [''best'', ''worst'', ''all'']
      \<and> stacked_bar_error (app_get_path app n) failed = Some message
     \<longrightarrow>
        Log WARNING (''    Failed to create stacked bar graph: '' @ n @ '', '' @ failed)
          \<in> set (fst (analyze_path a d arch app n dict x))
      \<and> Log WARNING message \<in> set (fst (analyze_path a d arch app n dict x))
      \<and> (\<forall>case_str \<in> set [''best'', ''worst'', ''all''].
            ToCsv (d @ ''/'' @ n @ ''_response_time_'' @ case_str @ ''.csv'')
              \<in> set (fst (analyze_path a d arch app n dict x))
          \<and> ExportGraph d (n @ ''_timeseries_'' @ case_str)
              \<in> set (fst (analyze_path a d arch app n dict x))
          \<and> ExportGraph d (n @ ''_hist_'' @ case_str)
              \<in> set (fst (analyze_path a d arch app n dict x))
          \<and> (stacked_bar_error (app_get_path app n) case_str = None \<longrightarrow>
                SaveStackedBar (d @ ''/'' @ n @ ''_stacked_bar_'' @ case_str @ ''.html'')
                  \<in> set (fst (analyze_path a d arch app n dict x))))
      \<and> snd (analyze_path a d arch app n dict x) =
           Inr (store_filename
                  (calc_stats (Stats n (path_node_names (arch_get_path arch n)))
                     (response_time (app_get_path app n) ''best'' x)
                     (response_time (app_get_path app n) ''worst'' x))
                  n (message_flow a)))"
proof (intro conjI impI)
  show "snd (analyze_path a d arch
          (app\<lparr>app_get_path := (app_get_path app)(n := (app_get_path app n)\<lparr>stacked_bar_error := sb\<rparr>)\<rparr>)
          n dict x)
     = snd (analyze_path a d arch app n dict x)"
    using analyze_path_stacked_bar by blast
  show "filter outside_stacked_bar
      (fst (analyze_path a d arch
          (app\<lparr>app_get_path := (app_get_path app)(n := (app_get_path app n)\<lparr>stacked_bar_error := sb\<rparr>)\<rparr>)
          n dict x))
     = filter outside_stacked_bar (fst (analyze_path a d arch app n dict x))"
    using analyze_path_stacked_bar by blast
next
  assume h: "map_of dict n = Some (f0, l0)
      \<and> (\<forall>f l. columns (to_records (app_get_path app n) f l) \<noteq> []
             \<and> get_messageflow_durationtime (to_records (app_get_path app n) f l) True \<noteq> PyNone
             \<and> get_messageflow_durationtime (to_records (app_get_path app n) f l) False \<noteq> PyNone)
      \<and> failed \<in> set [''best'', ''worst'', ''all'']
      \<and> stacked_bar_error (app_get_path app n) failed = Some message"
  then have key: "map_of dict n = Some (f0, l0)"
    and traffic: "\<forall>f l. columns (to_records (app_get_path app n) f l) \<noteq> []
             \<and> get_messageflow_durationtime (to_records (app_get_path app n) f l) True \<noteq> PyNone
             \<and> get_messageflow_durationtime (to_records (app_get_path app n) f l) False \<noteq> PyNone"
    and failed: "failed \<in> set [''best'', ''worst'', ''all'']"
    and msg: "stacked_bar_error (app_get_path app n) failed = Some message"
    by blast+
  note sub = analyze_path_traffic(1)[OF key traffic, of d x a arch]
  show "Log WARNING (''    Failed to create stacked bar graph: '' @ n @ '', '' @ failed)
          \<in> set (fst (analyze_path a d arch app n dict x))"
    using loop_warnings[OF failed msg, where d=d and n=n and x=x and df="[]"] sub by blast
  show "Log WARNING message \<in> set (fst (analyze_path a d arch app n dict x))"
    using loop_warnings[OF failed msg, where d=d and n=n and x=x and df="[]"] sub by blast
  show "\<forall>case_str \<in> set [''best'', ''worst'', ''all''].
            ToCsv (d @ ''/'' @ n @ ''_response_time_'' @ case_str @ ''.csv'')
              \<in> set (fst (analyze_path a d arch app n dict x))
          \<and> ExportGraph d (n @ ''_timeseries_'' @ case_str)
              \<in> set (fst (analyze_path a d arch app n dict x))
          \<and> ExportGraph d (n @ ''_hist_'' @ case_str)
              \<in> set (fst (analyze_path a d arch app n dict x))
          \<and> (stacked_bar_error (app_get_path app n) case_str = None \<longrightarrow>
                SaveStackedBar (d @ ''/'' @ n @ ''_stacked_bar_'' @ case_str @ ''.html'')
                  \<in> set (fst (analyze_path a d arch app n dict x)))"
  proof (intro ballI conjI impI)
    fix case_str assume c: "case_str \<in> set [''best'', ''worst'', ''all'']"
    note ex = loop_exports[OF c, where d=d and n=n and p="app_get_path app n" and x=x and df="[]"]
    show "ToCsv (d @ ''/'' @ n @ ''_response_time_'' @ case_str @ ''.csv'')
              \<in> set (fst (analyze_path a d arch app n dict x))"
      using ex sub by blast
    show "ExportGraph d (n @ ''_timeseries_'' @ case_str)
              \<in> set (fst (analyze_path a d arch app n dict x))"
      using ex sub by blast
    show "ExportGraph d (n @ ''_hist_'' @ case_str)
              \<in> set (fst (analyze_path a d arch app n dict x))"
      using ex sub by blast
    assume "stacked_bar_error (app_get_path app n) case_str = None"
    from loop_saves[OF c this, where d=d and n=n and x=x and df="[]"] sub
    show "SaveStackedBar (d @ ''/'' @ n @ ''_stacked_bar_'' @ case_str @ ''.html'')
                  \<in> set (fst (analyze_path a d arch app n dict x))"
      by blast
  qed
  show "snd (analyze_path a d arch app n dict x) =
           Inr (store_filename
                  (calc_stats (Stats n (path_node_names (arch_get_path arch n)))
                     (response_time (app_get_path app n) ''best'' x)
                     (response_time (app_get_path app n) ''worst'' x))
                  n (message_flow a))"
    by (rule analyze_path_traffic(2)[OF key traffic])
qed

theorem stacked_bar_failure_isolated_witness:
  "map_of [(''planning'', True, True)] ''planning'' = Some (True, True)
 \<and> (\<forall>f l. columns (to_records (app_get_path sample_app ''planning'') f l) \<noteq> []
        \<and> get_messageflow_durationtime (to_records (app_get_path sample_app ''planning'') f l) True
             \<noteq> PyNone
        \<and> get_messageflow_durationtime (to_records (app_get_path sample_app ''planning'') f l) False
             \<noteq> PyNone)
 \<and> stacked_bar_error (app_get_path sample_app ''planning'') ''all'' = Some ''empty frame''
 \<and> Log WARNING ''    Failed to create stacked bar graph: planning, all''
      \<in> set (fst (analyze_path sample_args ''out'' (sample_arch [''planning'']) sample_app ''planning''
                    [(''planning'', True, True)] ''system_time''))
 \<and> Log WARNING ''empty frame''
      \<in> set (fst (analyze_path sample_args ''out'' (sample_arch [''planning'']) sample_app ''planning''
                    [(''planning'', True, True)] ''system_time''))
 \<and> ToCsv ''out/planning_response_time_all.csv''
      \<in> set (fst (analyze_path sample_args ''out'' (sample_arch [''planning'']) sample_app ''planning''
                    [(''planning'', True, True)] ''system_time''))
 \<and> SaveStackedBar ''out/planning_stacked_bar_worst.html''
      \<in> set (fst (analyze_path sample_args ''out'' (sample_arch [''planning'']) sample_app ''planning''
                    [(''planning'', True, True)] ''system_time''))
 \<and> snd (analyze_path sample_args ''out'' (sample_arch [''planning'']) sample_app
                    ''planning'' [(''planning'', True, True)] ''system_time'')
      = Inr (store_filename (calc_stats (Stats ''planning'' [''planning_node'']) [3, 1, 2, 5] [4, 2])
               ''planning'' False)"
proof -
  have key: "map_of [(''planning'', True, True)] ''planning'' = Some (True, True)" by simp
  have traffic: "\<forall>f l. columns (to_records (app_get_path sample_app ''planning'') f l) \<noteq> []
        \<and> get_messageflow_durationtime (to_records (app_get_path sample_app ''planning'') f l) True
             \<noteq> PyNone
        \<and> get_messageflow_durationtime (to_records (app_get_path sample_app ''planning'') f l) False
             \<noteq> PyNone"
    by (simp add: sample_idle_records sample_tables traced_duration)
  have failed: "''all'' \<in> set [''best'', ''worst'', ''all'']" by simp
  have err: "stacked_bar_error (app_get_path sample_app ''planning'') ''all'' = Some ''empty frame''"
    and ok: "stacked_bar_error (app_get_path sample_app ''planning'') ''worst'' = None"
    and best: "response_time (app_get_path sample_app ''planning'') ''best'' ''system_time'' = [3, 1, 2, 5]"
    and worst: "response_time (app_get_path sample_app ''planning'') ''worst'' ''system_time'' = [4, 2]"
    by (simp_all add: sample_app_def)
  have short: "message_flow sample_args = False"
    and nodes: "path_node_names (arch_get_path (sample_arch [''planning'']) ''planning'')
                  = [''planning_node'']"
    by (simp_all add: sample_args_def sample_arch_def)
  note run = mp[OF conjunct2[OF conjunct2[OF
      stacked_bar_failure_isolated[of sample_args "''out''" "sample_arch [''planning'']" sample_app
        "''planning''" "\<lambda>c. None" "[(''planning'', True, True)]" "''system_time''" True True
        "''all''" "''empty frame''"]]]
      conjI[OF key conjI[OF traffic conjI[OF failed err]]]]
  show ?thesis
    using key traffic err ok run
    by (simp add: best worst short nodes)
qed

section \<open>Paths without traffic\<close>

lemma loop_no_report:
  "filter is_report (fst (response_time_loop d p n x cs df)) = []"
  by (induction cs arbitrary: df) (simp_all add: split_def Let_def split: option.splits)

lemma analyze_records_no_report:
  "filter is_report (fst (analyze_records a d arch p n x r)) = []"
proof (cases "get_messageflow_durationtime r True = PyNone")
  case True
  then show ?thesis by (simp add: analyze_records_no_input)
next
  case False
  show ?thesis
  proof (cases "get_messageflow_durationtime r False = PyNone")
    case True
    with False show ?thesis by (simp add: analyze_records_def Let_def split_def)
  next
    case no: False
    show ?thesis
      by (simp add: analyze_records_traffic[OF False no] loop_no_report
            del: response_time_loop.simps)
  qed
qed

lemma validator_no_report:
  "filter is_report (fst (check_the_first_last_callback_is_valid df)) = []"
  by (cases "columns df")
     (simp_all add: check_the_first_last_callback_is_valid_def Let_def del: last.simps)

lemma analyze_path_no_report:
  "filter is_report (fst (analyze_path a d arch app n dict x)) = []"
  by (auto simp: analyze_path_def Let_def split_def analyze_records_no_report validator_no_report
        split: option.splits sum.splits)

lemma analyze_paths_no_report:
  "filter is_report (fst (analyze_paths a d arch app dict x qs acc)) = []"
  by (induction qs arbitrary: acc)
     (auto simp: split_def Let_def analyze_path_no_report split: prod.splits sum.splits)

lemma verify_paths_events:
  "list_all is_preparation_or_verification (fst (verify_paths arch qs))"
  by (induction qs) (simp_all add: split_def Let_def)

lemma verify_paths_fail:
  "\<not> list_all (\<lambda>q. path_verify (arch_get_path arch q)) qs \<Longrightarrow>
     snd (verify_paths arch qs) = Inl (SystemExit (- 1))"
  by (induction qs) (auto simp: split_def Let_def)

lemma verify_paths_pass:
  "list_all (\<lambda>q. path_verify (arch_get_path arch q)) qs \<Longrightarrow>
     verify_paths arch qs = (map (\<lambda>q. Log INFO (''path.verify '' @ q @ '': True'')) qs, Inr ())"
  by (induction qs) (auto simp: split_def Let_def)

lemma analyze_paths_all_return:
  "\<forall>q \<in> set qs. \<exists>s. snd (analyze_path a d arch app q dict x) = Inr s \<Longrightarrow>
   analyze_paths a d arch app dict x qs acc =
     (concat (map (\<lambda>q. fst (analyze_path a d arch app q dict x)) qs),
      Inr (acc @ map (\<lambda>q. projr (snd (analyze_path a d arch app q dict x))) qs))"
proof (induction qs arbitrary: acc)
  case Nil
  then show ?case by simp
next
  case (Cons q qs)
  from Cons.prems obtain s where s: "snd (analyze_path a d arch app q dict x) = Inr s" by auto
  then obtain ev where run: "analyze_path a d arch app q dict x = (ev, Inr s)"
    by (cases "analyze_path a d arch app q dict x") auto
  have rest: "\<forall>q \<in> set qs. \<exists>s. snd (analyze_path a d arch app q dict x) = Inr s"
    using Cons.prems by simp
  show ?case
    by (simp add: run Cons.IH[OF rest])
qed

lemma analyze_eq_fail:
  "\<not> list_all (\<lambda>q. path_verify (arch_get_path arch q)) (paths arch) \<Longrightarrow>
   analyze a arch app d =
     ([Log INFO ''<<< Analyze Paths: Start >>>'', MakeDestinationDir d (force a),
       CopyFile (architecture_file_path a) d] @ fst (verify_paths arch (paths arch)),
      Inl (SystemExit (- 1)))"
  using verify_paths_fail[of arch "paths arch"]
  by (simp add: analyze_def Let_def split_def)

lemma analyze_eq_pass:
  "list_all (\<lambda>q. path_verify (arch_get_path arch q)) (paths arch) \<Longrightarrow>
   analyze a arch app d =
     ([Log INFO ''<<< Analyze Paths: Start >>>'', MakeDestinationDir d (force a),
       CopyFile (architecture_file_path a) d] @
      map (\<lambda>q. Log INFO (''path.verify '' @ q @ '': True'')) (paths arch) @
      fst (analyze_paths a d arch app (get_include_first_last_callback a arch)
             (if sim_time a then ''sim_time'' else ''system_time'') (paths arch) []) @
      (case snd (analyze_paths a d arch app (get_include_first_last_callback a arch)
             (if sim_time a then ''sim_time'' else ''system_time'') (paths arch) []) of
         Inl e \<Rightarrow> []
       | Inr stats_list \<Rightarrow>
           [YamlDump (d @ ''/stats_path.yaml'') stats_list, RoundYaml (d @ ''/stats_path.yaml''),
            Log INFO ''<<< Analyze Paths: Finish >>>'']),
      (case snd (analyze_paths a d arch app (get_include_first_last_callback a arch)
             (if sim_time a then ''sim_time'' else ''system_time'') (paths arch) []) of
         Inl e \<Rightarrow> Inl e
       | Inr stats_list \<Rightarrow> Inr ()))"
  by (simp add: analyze_def Let_def split_def verify_paths_pass split: sum.splits prod.splits)

lemma declared_path_configured:
  "q \<in> set (paths arch) \<Longrightarrow> \<exists>f l. map_of (get_include_first_last_callback a arch) q = Some (f, l)"
proof -
  assume q: "q \<in> set (paths arch)"
  have "map_of (fold (\<lambda>p d. AList.update p (True, True) d) (paths arch) []) q = Some (True, True)"
    using q by (induction "paths arch" arbitrary: q) (simp_all add: map_of_default_dictionary)
  then have "map_of (get_include_first_last_callback a arch) q \<noteq> None"
    by (simp add: get_include_first_last_callback_def Let_def map_of_apply_overrides)
  then show ?thesis by auto
qed

lemma duration_no_rows_Int64:
  assumes "columns df \<noteq> []" "rows df = []" "dtypes df (hd (columns df)) = Int64"
  shows "get_messageflow_durationtime df b = PyNone"
proof -
  obtain c cs where cols: "columns df = c # cs" using assms(1) by (cases "columns df") auto
  have mn: "series_min (getitem df c) = PyNA"
    using assms(2,3) cols by (simp add: series_min_def getitem_def)
  have mx: "series_max (getitem df c) = PyNA"
    using assms(2,3) cols by (simp add: series_max_def getitem_def)
  have "series_max (getitem df (last (columns df))) = na_value (dtypes df (last (columns df)))"
    using assms(2) by (simp add: series_max_def getitem_def)
  then have sub: "py_sub (series_max (getitem df (last (columns df)))) PyNA = PyNA"
    by (cases "dtypes df (last (columns df))") simp_all
  show ?thesis
  proof (cases b)
    case True
    then show ?thesis
      by (simp add: get_messageflow_durationtime_def messageflow_duration_try_def cols mn mx Let_def)
  next
    case False
    then show ?thesis
      using sub
      by (simp add: get_messageflow_durationtime_def messageflow_duration_try_def cols mn Let_def
            del: last.simps)
  qed
qed

lemma analyze_path_no_rows:
  assumes key: "map_of dict n = Some (f0, l0)"
    and no_rows: "\<forall>f l. columns (to_records (app_get_path app n) f l) \<noteq> []
        \<and> rows (to_records (app_get_path app n) f l) = []
        \<and> dtypes (to_records (app_get_path app n) f l)
             (hd (columns (to_records (app_get_path app n) f l))) = Int64"
  shows "analyze_path a d arch app n dict x =
     ([Log INFO (''Processing: '' @ n), ToRecords n f0 l0,
       Log WARNING ''  The first callback is invalid'', Log WARNING ''  The last callback is invalid'',
       ToRecords n False False,
       Log INFO ''  message flow'',
       Log WARNING (''    No-traffic and No-input in the path: '' @ n)],
      Inr (Stats n (path_node_names (arch_get_path arch n))))"
proof -
  have cols: "columns (to_records (app_get_path app n) f0 l0) \<noteq> []" using no_rows by simp
  have none: "get_messageflow_durationtime (to_records (app_get_path app n) False False) True = PyNone"
    using no_rows by (intro duration_no_rows_Int64) simp_all
  show ?thesis
    using no_rows
    by (simp add: analyze_path_eq[OF key cols] validator_eq[OF cols] analyze_records_no_input[OF none])
qed

text \<open>
  A path without traffic, as the script means to report it. Let every declared path
  verify and every records table have at least one column. For a declared path whose
  extracted records have zero rows, whatever the inclusion flags, in a nullable integer
  first column, \<^verbatim>\<open>analyze_path\<close> returns the freshly constructed Stats record, every
  statistics field at the placeholder \<^verbatim>\<open>'---'\<close>, and writes no artifact; the run writes the
  YAML report once, and the report lists the record of that path.
\<close>

theorem no_traffic_placeholder:
  assumes verified: "list_all (\<lambda>q. path_verify (arch_get_path arch q)) (paths arch)"
    and with_columns: "\<forall>q \<in> set (paths arch). \<forall>f l.
          columns (to_records (app_get_path app q) f l) \<noteq> []"
    and declared: "n \<in> set (paths arch)"
    and no_rows: "\<forall>f l. rows (to_records (app_get_path app n) f l) = []
        \<and> dtypes (to_records (app_get_path app n) f l)
             (hd (columns (to_records (app_get_path app n) f l))) = Int64"
  shows "\<exists>s stats_list.
      snd (analyze_path a d arch app n (get_include_first_last_callback a arch)
             (if sim_time a then ''sim_time'' else ''system_time'')) = Inr s
    \<and> s = Stats n (path_node_names (arch_get_path arch n))
    \<and> best_avg s = PyStr ''---'' \<and> best_std s = PyStr ''---'' \<and> best_min s = PyStr ''---''
    \<and> best_max s = PyStr ''---'' \<and> best_p50 s = PyStr ''---'' \<and> best_p95 s = PyStr ''---''
    \<and> best_p99 s = PyStr ''---''
    \<and> worst_avg s = PyStr ''---'' \<and> worst_std s = PyStr ''---'' \<and> worst_min s = PyStr ''---''
    \<and> worst_max s = PyStr ''---'' \<and> worst_p50 s = PyStr ''---'' \<and> worst_p95 s = PyStr ''---''
    \<and> worst_p99 s = PyStr ''---''
    \<and> filter is_artifact
         (fst (analyze_path a d arch app n (get_include_first_last_callback a arch)
                 (if sim_time a then ''sim_time'' else ''system_time''))) = []
    \<and> snd (analyze a arch app d) = Inr ()
    \<and> filter is_report (fst (analyze a arch app d)) = [YamlDump (d @ ''/stats_path.yaml'') stats_list]
    \<and> s \<in> set stats_list"
proof -
  define dict where "dict = get_include_first_last_callback a arch"
  define x where "x = (if sim_time a then ''sim_time'' else ''system_time'')"
  define stats_list where
    "stats_list = map (\<lambda>q. projr (snd (analyze_path a d arch app q dict x))) (paths arch)"
  obtain f0 l0 where key: "map_of dict n = Some (f0, l0)"
    using declared_path_configured[OF declared] unfolding dict_def by blast
  have nr: "\<forall>f l. columns (to_records (app_get_path app n) f l) \<noteq> []
        \<and> rows (to_records (app_get_path app n) f l) = []
        \<and> dtypes (to_records (app_get_path app n) f l)
             (hd (columns (to_records (app_get_path app n) f l))) = Int64"
    using with_columns declared no_rows by blast
  note run = analyze_path_no_rows[OF key nr, of a d arch x]
  have returns: "\<forall>q \<in> set (paths arch). \<exists>s. snd (analyze_path a d arch app q dict x) = Inr s"
  proof
    fix q assume q: "q \<in> set (paths arch)"
    obtain f l where k: "map_of dict q = Some (f, l)"
      using declared_path_configured[OF q] unfolding dict_def by blast
    have c: "columns (to_records (app_get_path app q) f l) \<noteq> []" using with_columns q by blast
    show "\<exists>s. snd (analyze_path a d arch app q dict x) = Inr s"
      by (rule analyze_path_returns[OF k c])
  qed
  note loop = analyze_paths_all_return[OF returns, of "[]"]
  have member: "Stats n (path_node_names (arch_get_path arch n)) \<in> set stats_list"
  proof -
    have "projr (snd (analyze_path a d arch app n dict x)) = Stats n (path_node_names (arch_get_path arch n))"
      by (simp add: run)
    then show ?thesis
      unfolding stats_list_def using declared by (metis (mono_tags, lifting) image_eqI set_map)
  qed
  have no_report: "filter is_report (fst (analyze_paths a d arch app dict x (paths arch) [])) = []"
    by (rule analyze_paths_no_report)
  have result: "snd (analyze a arch app d) = Inr ()"
    unfolding analyze_eq_pass[OF verified] dict_def[symmetric] x_def[symmetric]
    by (simp add: loop)
  have report: "filter is_report (fst (analyze a arch app d))
                  = [YamlDump (d @ ''/stats_path.yaml'') stats_list]"
    unfolding analyze_eq_pass[OF verified] dict_def[symmetric] x_def[symmetric]
    using no_report by (simp add: loop stats_list_def filter_map comp_def)
  show ?thesis
    unfolding dict_def[symmetric] x_def[symmetric]
    using member result report
    by (intro exI[of _ "Stats n (path_node_names (arch_get_path arch n))"] exI[of _ stats_list])
       (simp add: run Stats_def)
qed

theorem no_traffic_placeholder_witness:
  "list_all (\<lambda>q. path_verify (arch_get_path (sample_arch [''sensing'', ''idle'']) q))
     (paths (sample_arch [''sensing'', ''idle'']))
 \<and> ''idle'' \<in> set (paths (sample_arch [''sensing'', ''idle'']))
 \<and> rows (to_records (app_get_path sample_app ''idle'') True True) = []
 \<and> snd (analyze_path sample_args ''out'' (sample_arch [''sensing'', ''idle'']) sample_app ''idle''
          (get_include_first_last_callback sample_args (sample_arch [''sensing'', ''idle'']))
          ''system_time'') = Inr (Stats ''idle'' [''idle_node''])
 \<and> snd (analyze sample_args (sample_arch [''sensing'', ''idle'']) sample_app ''out'') = Inr ()
 \<and> (\<exists>stats_list.
       filter is_report (fst (analyze sample_args (sample_arch [''sensing'', ''idle'']) sample_app ''out''))
         = [YamlDump ''out/stats_path.yaml'' stats_list]
     \<and> Stats ''idle'' [''idle_node''] \<in> set stats_list)"
  using no_traffic_placeholder[of "sample_arch [''sensing'', ''idle'']" sample_app "''idle''"
      sample_args "''out''"]
  by (auto simp: sample_idle_records sample_tables sample_arch_def sample_args_def)



section \<open>The top-level orchestrator: verification before analysis\<close>

lemma preparation_is_no_analysis:
  "is_preparation_or_verification e \<Longrightarrow> \<not> is_extraction e \<and> \<not> is_artifact e \<and> \<not> is_report e"
  by (cases e) simp_all

lemma preparation_filter:
  "list_all is_preparation_or_verification xs \<Longrightarrow>
     filter is_extraction xs = [] \<and> filter is_artifact xs = [] \<and> filter is_report xs = []"
  by (induction xs) (simp_all add: preparation_is_no_analysis)

text \<open>
  Claim C7. \<^verbatim>\<open>analyze\<close> verifies the declared paths before it analyses any. If some
  path fails to verify, the run ends with \<^verbatim>\<open>sys.exit(-1)\<close>, a non-zero exit code, and
  its events are the preparation of the destination directory and the log lines of the
  verification loop only: no records are extracted, no artifact and no report is
  written. If every path verifies, the analysis loop runs after the verification loop,
  and the YAML report is written after it, once, unless an analysis raises; when every
  records table has at least one column no analysis raises, every declared path is
  analysed in order, and the single report lists their Stats records.
\<close>

theorem verification_gate:
  "(\<not> list_all (\<lambda>q. path_verify (arch_get_path arch q)) (paths arch) \<longrightarrow>
      snd (analyze a arch app d) = Inl (SystemExit (- 1))
    \<and> (- 1 :: int) \<noteq> 0
    \<and> list_all is_preparation_or_verification (fst (analyze a arch app d))
    \<and> filter is_extraction (fst (analyze a arch app d)) = []
    \<and> filter is_artifact (fst (analyze a arch app d)) = []
    \<and> filter is_report (fst (analyze a arch app d)) = [])
 \<and> (list_all (\<lambda>q. path_verify (arch_get_path arch q)) (paths arch) \<longrightarrow>
      fst (analyze a arch app d) =
        [Log INFO ''<<< Analyze Paths: Start >>>'', MakeDestinationDir d (force a),
         CopyFile (architecture_file_path a) d] @
        map (\<lambda>q. Log INFO (''path.verify '' @ q @ '': True'')) (paths arch) @
        fst (analyze_paths a d arch app (get_include_first_last_callback a arch)
               (if sim_time a then ''sim_time'' else ''system_time'') (paths arch) []) @
        (case snd (analyze_paths a d arch app (get_include_first_last_callback a arch)
               (if sim_time a then ''sim_time'' else ''system_time'') (paths arch) []) of
           Inl e \<Rightarrow> []
         | Inr stats_list \<Rightarrow>
             [YamlDump (d @ ''/stats_path.yaml'') stats_list, RoundYaml (d @ ''/stats_path.yaml''),
              Log INFO ''<<< Analyze Paths: Finish >>>''])
    \<and> snd (analyze a arch app d) =
        (case snd (analyze_paths a d arch app (get_include_first_last_callback a arch)
               (if sim_time a then ''sim_time'' else ''system_time'') (paths arch) []) of
           Inl e \<Rightarrow> Inl e
         | Inr stats_list \<Rightarrow> Inr ()))
 \<and> (list_all (\<lambda>q. path_verify (arch_get_path arch q)) (paths arch)
      \<and> (\<forall>q \<in> set (paths arch). \<forall>f l. columns (to_records (app_get_path app q) f l) \<noteq> [])
     \<longrightarrow>
      analyze_paths a d arch app (get_include_first_last_callback a arch)
          (if sim_time a then ''sim_time'' else ''system_time'') (paths arch) [] =
        (concat (map (\<lambda>q. fst (analyze_path a d arch app q (get_include_first_last_callback a arch)
                                   (if sim_time a then ''sim_time'' else ''system_time'')))
                     (paths arch)),
         Inr (map (\<lambda>q. projr (snd (analyze_path a d arch app q (get_include_first_last_callback a arch)
                                      (if sim_time a then ''sim_time'' else ''system_time''))))
                  (paths arch)))
    \<and> snd (analyze a arch app d) = Inr ()
    \<and> filter is_report (fst (analyze a arch app d)) =
        [YamlDump (d @ ''/stats_path.yaml'')
           (map (\<lambda>q. projr (snd (analyze_path a d arch app q (get_include_first_last_callback a arch)
                                      (if sim_time a then ''sim_time'' else ''system_time''))))
                (paths arch))])"
proof (intro conjI impI)
  assume bad: "\<not> list_all (\<lambda>q. path_verify (arch_get_path arch q)) (paths arch)"
  show "snd (analyze a arch app d) = Inl (SystemExit (- 1))"
    by (simp add: analyze_eq_fail[OF bad])
  show "(- 1 :: int) \<noteq> 0" by simp
  show events: "list_all is_preparation_or_verification (fst (analyze a arch app d))"
    by (simp add: analyze_eq_fail[OF bad] verify_paths_events)
  show "filter is_extraction (fst (analyze a arch app d)) = []"
    using preparation_filter[OF events] by blast
  show "filter is_artifact (fst (analyze a arch app d)) = []"
    using preparation_filter[OF events] by blast
  show "filter is_report (fst (analyze a arch app d)) = []"
    using preparation_filter[OF events] by blast
next
  assume good: "list_all (\<lambda>q. path_verify (arch_get_path arch q)) (paths arch)"
  show "fst (analyze a arch app d) =
        [Log INFO ''<<< Analyze Paths: Start >>>'', MakeDestinationDir d (force a),
         CopyFile (architecture_file_path a) d] @
        map (\<lambda>q. Log INFO (''path.verify '' @ q @ '': True'')) (paths arch) @
        fst (analyze_paths a d arch app (get_include_first_last_callback a arch)
               (if sim_time a then ''sim_time'' else ''system_time'') (paths arch) []) @
        (case snd (analyze_paths a d arch app (get_include_first_last_callback a arch)
               (if sim_time a then ''sim_time'' else ''system_time'') (paths arch) []) of
           Inl e \<Rightarrow> []
         | Inr stats_list \<Rightarrow>
             [YamlDump (d @ ''/stats_path.yaml'') stats_list, RoundYaml (d @ ''/stats_path.yaml''),
              Log INFO ''<<< Analyze Paths: Finish >>>''])"
    unfolding analyze_eq_pass[OF good] by simp
  show "snd (analyze a arch app d) =
        (case snd (analyze_paths a d arch app (get_include_first_last_callback a arch)
               (if sim_time a then ''sim_time'' else ''system_time'') (paths arch) []) of
           Inl e \<Rightarrow> Inl e
         | Inr stats_list \<Rightarrow> Inr ())"
    unfolding analyze_eq_pass[OF good] by simp
next
  assume h: "list_all (\<lambda>q. path_verify (arch_get_path arch q)) (paths arch)
      \<and> (\<forall>q \<in> set (paths arch). \<forall>f l. columns (to_records (app_get_path app q) f l) \<noteq> [])"
  then have good: "list_all (\<lambda>q. path_verify (arch_get_path arch q)) (paths arch)"
    and with_columns: "\<forall>q \<in> set (paths arch). \<forall>f l.
          columns (to_records (app_get_path app q) f l) \<noteq> []"
    by blast+
  define dict where "dict = get_include_first_last_callback a arch"
  define x where "x = (if sim_time a then ''sim_time'' else ''system_time'')"
  have returns: "\<forall>q \<in> set (paths arch). \<exists>s. snd (analyze_path a d arch app q dict x) = Inr s"
  proof
    fix q assume q: "q \<in> set (paths arch)"
    obtain f l where k: "map_of dict q = Some (f, l)"
      using declared_path_configured[OF q] unfolding dict_def by blast
    have c: "columns (to_records (app_get_path app q) f l) \<noteq> []" using with_columns q by blast
    show "\<exists>s. snd (analyze_path a d arch app q dict x) = Inr s"
      by (rule analyze_path_returns[OF k c])
  qed
  note loop = analyze_paths_all_return[OF returns, of "[]"]
  show "analyze_paths a d arch app (get_include_first_last_callback a arch)
          (if sim_time a then ''sim_time'' else ''system_time'') (paths arch) [] =
        (concat (map (\<lambda>q. fst (analyze_path a d arch app q (get_include_first_last_callback a arch)
                                   (if sim_time a then ''sim_time'' else ''system_time'')))
                     (paths arch)),
         Inr (map (\<lambda>q. projr (snd (analyze_path a d arch app q (get_include_first_last_callback a arch)
                                      (if sim_time a then ''sim_time'' else ''system_time''))))
                  (paths arch)))"
    using loop unfolding dict_def x_def by simp
  show "snd (analyze a arch app d) = Inr ()"
    unfolding analyze_eq_pass[OF good] dict_def[symmetric] x_def[symmetric]
    by (simp add: loop)
  have no_report: "filter is_report (fst (analyze_paths a d arch app dict x (paths arch) [])) = []"
    by (rule analyze_paths_no_report)
  show "filter is_report (fst (analyze a arch app d)) =
        [YamlDump (d @ ''/stats_path.yaml'')
           (map (\<lambda>q. projr (snd (analyze_path a d arch app q (get_include_first_last_callback a arch)
                                      (if sim_time a then ''sim_time'' else ''system_time''))))
                (paths arch))]"
    unfolding analyze_eq_pass[OF good] dict_def[symmetric] x_def[symmetric]
    using no_report by (simp add: loop filter_map comp_def)
qed

theorem verification_gate_witness:
  "\<not> list_all (\<lambda>q. path_verify (arch_get_path (sample_arch [''sensing'', ''broken'', ''idle'']) q))
       (paths (sample_arch [''sensing'', ''broken'', ''idle'']))
 \<and> analyze sample_args (sample_arch [''sensing'', ''broken'', ''idle'']) sample_app ''out'' =
     ([Log INFO ''<<< Analyze Paths: Start >>>'', MakeDestinationDir ''out'' False,
       CopyFile ''architecture_path.yaml'' ''out'',
       Log INFO ''path.verify sensing: True'', Log INFO ''path.verify broken: False''],
      Inl (SystemExit (- 1)))
 \<and> list_all (\<lambda>q. path_verify (arch_get_path (sample_arch [''idle'']) q)) (paths (sample_arch [''idle'']))
 \<and> (\<forall>f l. columns (to_records (app_get_path sample_app ''idle'') f l) \<noteq> [])
 \<and> snd (analyze sample_args (sample_arch [''idle'']) sample_app ''out'') = Inr ()
 \<and> filter is_report (fst (analyze sample_args (sample_arch [''idle'']) sample_app ''out'')) =
     [YamlDump ''out/stats_path.yaml'' [Stats ''idle'' [''idle_node'']]]"
proof -
  have bad: "\<not> list_all (\<lambda>q. path_verify (arch_get_path (sample_arch [''sensing'', ''broken'', ''idle'']) q))
       (paths (sample_arch [''sensing'', ''broken'', ''idle'']))"
    by (simp add: sample_arch_def)
  have good: "list_all (\<lambda>q. path_verify (arch_get_path (sample_arch [''idle'']) q))
       (paths (sample_arch [''idle'']))"
    by (simp add: sample_arch_def)
  have cols: "\<forall>q \<in> set (paths (sample_arch [''idle''])). \<forall>f l.
       columns (to_records (app_get_path sample_app q) f l) \<noteq> []"
    by (simp add: sample_arch_def sample_idle_records sample_tables)
  have key: "map_of (get_include_first_last_callback sample_args (sample_arch [''idle''])) ''idle''
               = Some (True, True)"
    by (simp add: get_include_first_last_callback_def sample_args_def sample_arch_def)
  have nr: "\<forall>f l. columns (to_records (app_get_path sample_app ''idle'') f l) \<noteq> []
        \<and> rows (to_records (app_get_path sample_app ''idle'') f l) = []
        \<and> dtypes (to_records (app_get_path sample_app ''idle'') f l)
             (hd (columns (to_records (app_get_path sample_app ''idle'') f l))) = Int64"
    by (simp add: sample_idle_records sample_tables)
  have nodes: "path_node_names (arch_get_path (sample_arch [''idle'']) ''idle'') = [''idle_node'']"
    by (simp add: sample_arch_def)
  have idle: "projr (snd (analyze_path sample_args ''out'' (sample_arch [''idle'']) sample_app ''idle''
                (get_include_first_last_callback sample_args (sample_arch [''idle''])) ''system_time''))
              = Stats ''idle'' [''idle_node'']"
    by (simp add: analyze_path_no_rows[OF key nr] nodes)
  have sys: "sim_time sample_args = False" and decl: "paths (sample_arch [''idle'']) = [''idle'']"
    by (simp_all add: sample_args_def sample_arch_def)
  note fail = mp[OF conjunct1[OF verification_gate[of "sample_arch [''sensing'', ''broken'', ''idle'']"
                  sample_args sample_app "''out''"]] bad]
  note pass = mp[OF conjunct2[OF conjunct2[OF verification_gate[of "sample_arch [''idle'']"
                  sample_args sample_app "''out''"]]] conjI[OF good cols]]
  have trace: "analyze sample_args (sample_arch [''sensing'', ''broken'', ''idle'']) sample_app ''out'' =
     ([Log INFO ''<<< Analyze Paths: Start >>>'', MakeDestinationDir ''out'' False,
       CopyFile ''architecture_path.yaml'' ''out'',
       Log INFO ''path.verify sensing: True'', Log INFO ''path.verify broken: False''],
      Inl (SystemExit (- 1)))"
    by (simp add: analyze_def sample_arch_def sample_args_def Let_def)
  show ?thesis
    using bad good fail pass trace
    by (simp add: sys decl idle sample_idle_records sample_tables)
qed

end
